theory Spec2Isabelle
  imports Main "HOL-Library.Word"
begin

section \<open>The GetAttributes payloads of PyKMIP\<close>

text \<open>
  A shallow embedding of \<^verbatim>\<open>kmip/core/messages/payloads/get_attributes.py\<close>: the classes
  \<^verbatim>\<open>GetAttributesRequestPayload\<close> and \<^verbatim>\<open>GetAttributesResponsePayload\<close>, their
  constructors, properties, \<^verbatim>\<open>read\<close>, \<^verbatim>\<open>write\<close> and \<^verbatim>\<open>__eq__\<close>.

  A method that mutates \<^verbatim>\<open>self\<close> takes the instance and returns an outcome: the method
  returned, with the instance as it is then, or it raised, with the exception and the instance
  as the raise leaves it. Python exceptions are values of the type \<open>error\<close>.
\<close>

subsection \<open>Python values, exceptions and outcomes\<close>

type_synonym byte = "8 word"

text \<open>
  Modelled from the spec: \<^verbatim>\<open>objects.Attribute\<close> is not among the sources. The spec treats it
  as an opaque codable unit, a nested structure with its own frame and its own structural
  equality; here it is the content of its frame.
\<close>

datatype Attribute = Attribute (attribute_body: "byte list")

text \<open>
  The values a caller can hand to a setter: the setters test \<^verbatim>\<open>value is None\<close>,
  \<^verbatim>\<open>isinstance(value, six.string_types)\<close>, \<^verbatim>\<open>isinstance(value, list)\<close> and
  \<^verbatim>\<open>isinstance(attribute, objects.Attribute)\<close>, and report \<^verbatim>\<open>type(name)\<close>.
\<close>

datatype pyobj =
    PyNone
  | PyStr string
  | PyInt int
  | PyList "pyobj list"
  | PyAttribute Attribute

datatype pytype = T_NoneType | T_str | T_int | T_list | T_Attribute

fun type_of :: "pyobj \<Rightarrow> pytype" where
  "type_of PyNone = T_NoneType"
| "type_of (PyStr s) = T_str"
| "type_of (PyInt i) = T_int"
| "type_of (PyList xs) = T_list"
| "type_of (PyAttribute a) = T_Attribute"

text \<open>
  The exceptions. \<open>TypeError_item m k t\<close> is \<^verbatim>\<open>TypeError(m.format(k, t))\<close>, with the format
  string \<open>m\<close> and its two arguments kept apart. \<open>struct_error\<close> is raised when a length does
  not fit the four bytes of a header.
\<close>

datatype error =
    TypeError string
  | TypeError_item string nat pytype
  | InvalidField string
  | InvalidKmipEncoding string
  | struct_error

datatype 's outcome = Returned 's | Raised error 's

subsection \<open>The wire: tags, headers, text strings, attributes\<close>

text \<open>
  Modelled from the spec: the tag registry \<^verbatim>\<open>enums.Tags\<close> and \<^verbatim>\<open>enums.Types\<close> is not among
  the sources. The spec names the five tags and the two wire types used here and leaves their
  constants to the registry; the values below are those of the KMIP registry.
\<close>

datatype Tags = ATTRIBUTE | ATTRIBUTE_NAME | REQUEST_PAYLOAD | RESPONSE_PAYLOAD
  | UNIQUE_IDENTIFIER

text \<open>
  Modelled from the spec: the wire constants of \<^verbatim>\<open>enums.Tags\<close>, which the spec leaves to the
  registry; they are distinct and fit three bytes.
\<close>

fun tag_value :: "Tags \<Rightarrow> nat" where
  "tag_value ATTRIBUTE = 0x420008"
| "tag_value ATTRIBUTE_NAME = 0x42000A"
| "tag_value REQUEST_PAYLOAD = 0x420079"
| "tag_value RESPONSE_PAYLOAD = 0x42007C"
| "tag_value UNIQUE_IDENTIFIER = 0x420094"

text \<open>
  Modelled from the spec: \<^verbatim>\<open>enums.Types\<close>, the wire types of a structure and of a text scalar,
  one byte each.
\<close>

datatype Types = STRUCTURE | TEXT_STRING

fun type_value :: "Types \<Rightarrow> nat" where
  "type_value STRUCTURE = 0x01"
| "type_value TEXT_STRING = 0x07"

text \<open>
  Modelled from the spec: the numbers of a header, \<^verbatim>\<open>pack\<close> and \<^verbatim>\<open>unpack\<close> of the absent
  \<^verbatim>\<open>primitives\<close>. The spec gives the widths and not the byte order; the most significant byte
  comes first, as KMIP has it. \<open>be_bytes k n\<close> is \<open>n\<close> on \<open>k\<close> bytes, \<open>be_nat\<close> reads it back.
\<close>

fun be_bytes :: "nat \<Rightarrow> nat \<Rightarrow> byte list" where
  "be_bytes 0 n = []"
| "be_bytes (Suc k) n = be_bytes k (n div 256) @ [of_nat (n mod 256)]"

definition be_nat :: "byte list \<Rightarrow> nat" where
  "be_nat bs = foldl (\<lambda>a b. a * 256 + unat b) 0 bs"

text \<open>
  \<^verbatim>\<open>primitives.Base\<close>, \<^verbatim>\<open>primitives.Struct\<close> and \<^verbatim>\<open>utils.BytearrayStream\<close> are not among the
  sources either. The spec gives the layout \<^verbatim>\<open>[tag:3][type:1][length:4][body: length bytes]\<close>.
  A stream is the list of the bytes still to be read, or of the bytes written so far; reading
  \<open>n\<close> bytes from it takes what there is when there are fewer. The strings in the errors of
  the functions below name the part of the encoding that failed.
\<close>

text \<open>
  Modelled from the spec: \<^verbatim>\<open>Base.is_tag_next\<close>, the spec's \<^verbatim>\<open>peek_tag\<close>: whether the next three
  bytes of the stream are the tag; nothing is consumed.
\<close>

definition is_tag_next :: "Tags \<Rightarrow> byte list \<Rightarrow> bool" where
  "is_tag_next tag stream =
     (if length (take 3 stream) \<noteq> 3 then False
      else be_nat (take 3 stream) = tag_value tag)"

text \<open>
  Modelled from the spec: \<^verbatim>\<open>Base.is_oversized\<close>, the spec's \<^verbatim>\<open>check_fully_consumed\<close>: "any
  remaining bytes signal a decode failure (oversized / trailing data)", a malformed-encoding
  error.
\<close>

definition is_oversized :: "byte list \<Rightarrow> error option" where
  "is_oversized stream =
     (if length stream > 0 then Some (InvalidKmipEncoding ''oversized'') else None)"

text \<open>
  Modelled from the spec: \<^verbatim>\<open>Base.read\<close>, the spec's "read the tag/type/length header": the tag
  and the type must be those of the object that reads; the result is the declared length and
  the stream after the header. A header that is short or does not match is a malformed
  encoding.
\<close>

definition Base_read :: "Tags \<Rightarrow> Types \<Rightarrow> byte list \<Rightarrow> error + (nat \<times> byte list)" where
  "Base_read tag ty stream =
     (if length stream < 3 then Inl (InvalidKmipEncoding ''tag'')
      else if be_nat (take 3 stream) \<noteq> tag_value tag then Inl (InvalidKmipEncoding ''tag'')
      else if length stream < 4 then Inl (InvalidKmipEncoding ''type'')
      else if unat (stream ! 3) \<noteq> type_value ty then Inl (InvalidKmipEncoding ''type'')
      else if length stream < 8 then Inl (InvalidKmipEncoding ''length'')
      else Inr (be_nat (take 4 (drop 4 stream)), drop 8 stream))"

text \<open>
  Modelled from the spec: \<^verbatim>\<open>Base.write\<close>, the spec's "write tag, wire-type marker, length",
  in that order. The length has four bytes: a larger one cannot be written, and the write
  raises when it comes to it.
\<close>

definition Base_write :: "Tags \<Rightarrow> Types \<Rightarrow> nat \<Rightarrow> byte list \<Rightarrow> byte list outcome" where
  "Base_write tag ty n stream =
     (let stream1 = stream @ be_bytes 3 (tag_value tag);
          stream2 = stream1 @ [of_nat (type_value ty)]
      in if n < 2 ^ 32 then Returned (stream2 @ be_bytes 4 n)
         else Raised struct_error stream2)"

text \<open>
  Modelled from the spec: \<^verbatim>\<open>primitives.TextString\<close> is not among the sources. It is the
  scalar codec of the spec for text: a tagged value whose body is the bytes of the string,
  one byte for each character.
\<close>

datatype TextString = TextString (ts_value: string) (ts_tag: Tags)

text \<open>
  Modelled from the spec: \<^verbatim>\<open>TextString.read\<close>, the spec's \<^verbatim>\<open>decode(tag, cursor) -> value\<close>: the
  header, then as many bytes as it declares.
\<close>

definition TextString_read :: "Tags \<Rightarrow> byte list \<Rightarrow> error + (TextString \<times> byte list)" where
  "TextString_read tag stream =
     (case Base_read tag TEXT_STRING stream of
        Inl e \<Rightarrow> Inl e
      | Inr (n, rest) \<Rightarrow>
          if length rest < n then Inl (InvalidKmipEncoding ''value'')
          else Inr (TextString (map (\<lambda>b. char_of (unat b)) (take n rest)) tag, drop n rest))"

text \<open>
  Modelled from the spec: \<^verbatim>\<open>TextString.write\<close>, the spec's \<^verbatim>\<open>encode(tag, value) -> bytes\<close>: the
  header with the length of the string, then its bytes.
\<close>

definition TextString_write :: "TextString \<Rightarrow> byte list \<Rightarrow> byte list outcome" where
  "TextString_write t stream =
     (case Base_write (ts_tag t) TEXT_STRING (length (ts_value t)) stream of
        Raised e stream1 \<Rightarrow> Raised e stream1
      | Returned stream1 \<Rightarrow> Returned (stream1 @ map of_char (ts_value t)))"

text \<open>
  Modelled from the spec: \<^verbatim>\<open>Attribute.read\<close>, the spec's \<^verbatim>\<open>decode(cursor)\<close> of the attribute
  structure, "independently bounded": the header, then the body it declares.
\<close>

definition Attribute_read :: "byte list \<Rightarrow> error + (Attribute \<times> byte list)" where
  "Attribute_read stream =
     (case Base_read ATTRIBUTE STRUCTURE stream of
        Inl e \<Rightarrow> Inl e
      | Inr (n, rest) \<Rightarrow>
          if length rest < n then Inl (InvalidKmipEncoding ''value'')
          else Inr (Attribute (take n rest), drop n rest))"

text \<open>
  Modelled from the spec: \<^verbatim>\<open>Attribute.write\<close>, the spec's \<^verbatim>\<open>encode() -> bytes\<close>: the header of
  a structure with the tag \<^verbatim>\<open>ATTRIBUTE\<close>, then the body.
\<close>

definition Attribute_write :: "Attribute \<Rightarrow> byte list \<Rightarrow> byte list outcome" where
  "Attribute_write a stream =
     (case Base_write ATTRIBUTE STRUCTURE (length (attribute_body a)) stream of
        Raised e stream1 \<Rightarrow> Raised e stream1
      | Returned stream1 \<Rightarrow> Returned (stream1 @ attribute_body a))"

subsection \<open>GetAttributesRequestPayload\<close>

text \<open>
  The instance: \<^verbatim>\<open>self.length\<close> (of \<^verbatim>\<open>primitives.Struct\<close>, \<^verbatim>\<open>None\<close> until a read or a
  write sets it), \<^verbatim>\<open>self._uid\<close> and \<^verbatim>\<open>self._attribute_names\<close>. The tag of the instance is
  the constant \<^verbatim>\<open>enums.Tags.REQUEST_PAYLOAD\<close> the constructor passes on.
\<close>

record GetAttributesRequestPayload =
  req_length :: "nat option"
  req_uid :: "TextString option"
  req_attribute_names :: "TextString list"

definition Request_uid :: "GetAttributesRequestPayload \<Rightarrow> string option" where
  "Request_uid self = (case req_uid self of Some u \<Rightarrow> Some (ts_value u) | None \<Rightarrow> None)"

definition Request_uid_setter ::
  "GetAttributesRequestPayload \<Rightarrow> pyobj \<Rightarrow> GetAttributesRequestPayload outcome" where
  "Request_uid_setter self v =
     (case v of
        PyNone \<Rightarrow> Returned (self\<lparr>req_uid := None\<rparr>)
      | PyStr s \<Rightarrow> Returned (self\<lparr>req_uid := Some (TextString s UNIQUE_IDENTIFIER)\<rparr>)
      | _ \<Rightarrow> Raised (TypeError ''uid must be a string'') self)"

definition Request_attribute_names :: "GetAttributesRequestPayload \<Rightarrow> string list" where
  "Request_attribute_names self =
     (if req_attribute_names self \<noteq> [] then map ts_value (req_attribute_names self)
      else [])"

text \<open>
  The loop \<^verbatim>\<open>for i in range(len(value))\<close> of the setter: \<open>i\<close> is the index of the head of
  the elements still to visit, \<open>names\<close> the local list built so far.
\<close>

fun names_loop :: "nat \<Rightarrow> pyobj list \<Rightarrow> string list \<Rightarrow> error + string list" where
  "names_loop i [] names = Inr names"
| "names_loop i (name # rest) names =
     (case name of
        PyStr s \<Rightarrow> names_loop (i + 1) rest (if s \<notin> set names then names @ [s] else names)
      | _ \<Rightarrow> Inl (TypeError_item
                 ''attribute_names must be a list of strings; item {0} has type {1}''
                 (i + 1) (type_of name)))"

definition Request_attribute_names_setter ::
  "GetAttributesRequestPayload \<Rightarrow> pyobj \<Rightarrow> GetAttributesRequestPayload outcome" where
  "Request_attribute_names_setter self v =
     (case v of
        PyNone \<Rightarrow> Returned (self\<lparr>req_attribute_names := []\<rparr>)
      | PyList xs \<Rightarrow>
          (case names_loop 0 xs [] of
             Inl e \<Rightarrow> Raised e self
           | Inr names \<Rightarrow>
               Returned (self\<lparr>req_attribute_names :=
                                 map (\<lambda>name. TextString name ATTRIBUTE_NAME) names\<rparr>))
      | _ \<Rightarrow> Raised (TypeError ''attribute_names must be a list of strings'') self)"

text \<open>The constructor: a raise in one of the two assignments leaves the caller no instance.\<close>

definition Request_init :: "pyobj \<Rightarrow> pyobj \<Rightarrow> error + GetAttributesRequestPayload" where
  "Request_init uid attribute_names =
     (let self = \<lparr>req_length = None, req_uid = None, req_attribute_names = []\<rparr>
      in case Request_uid_setter self uid of
           Raised e _ \<Rightarrow> Inl e
         | Returned self1 \<Rightarrow>
             (case Request_attribute_names_setter self1 attribute_names of
                Raised e _ \<Rightarrow> Inl e
              | Returned self2 \<Rightarrow> Inr self2))"

text \<open>
  The loop \<^verbatim>\<open>while self.is_tag_next(enums.Tags.ATTRIBUTE_NAME, tstream)\<close> of \<^verbatim>\<open>read\<close>. It
  ends because a text string that was read took its header from the stream.
\<close>

function read_names ::
  "byte list \<Rightarrow> TextString list \<Rightarrow> error + (TextString list \<times> byte list)" where
  "read_names tstream names =
     (if is_tag_next ATTRIBUTE_NAME tstream then
        (case TextString_read ATTRIBUTE_NAME tstream of
           Inl e \<Rightarrow> Inl e
         | Inr (name, tstream1) \<Rightarrow> read_names tstream1 (names @ [name]))
      else Inr (names, tstream))"
  by pat_completeness auto
termination
proof (relation "measure (\<lambda>(tstream, names). length tstream)")
  show "wf (measure (\<lambda>(tstream, names). length tstream))"
    by simp
next
  fix tstream :: "byte list" and names :: "TextString list" and x2 name tstream1
  assume "TextString_read ATTRIBUTE_NAME tstream = Inr x2" and "(name, tstream1) = x2"
  then show "((tstream1, names @ [name]), (tstream, names))
               \<in> measure (\<lambda>(tstream, names). length tstream)"
    by (auto simp: TextString_read_def Base_read_def split: if_splits sum.splits)
qed

declare read_names.simps [simp del]

text \<open>
  \<^verbatim>\<open>read\<close>. When the text string of the identifier fails to read, the instance holds the
  object that line 128 assigned before the read.
\<close>

definition Request_read ::
  "GetAttributesRequestPayload \<Rightarrow> byte list \<Rightarrow> GetAttributesRequestPayload outcome" where
  "Request_read self istream =
     (case Base_read REQUEST_PAYLOAD STRUCTURE istream of
        Inl e \<Rightarrow> Raised e self
      | Inr (n, rest) \<Rightarrow>
          (let self1 = self\<lparr>req_length := Some n\<rparr>;
               tstream = take n rest
           in case (if is_tag_next UNIQUE_IDENTIFIER tstream then
                      (case TextString_read UNIQUE_IDENTIFIER tstream of
                         Inl e \<Rightarrow>
                           Inl (e, self1\<lparr>req_uid := Some (TextString [] UNIQUE_IDENTIFIER)\<rparr>)
                       | Inr (u, tstream1) \<Rightarrow> Inr (self1\<lparr>req_uid := Some u\<rparr>, tstream1))
                    else Inr (self1\<lparr>req_uid := None\<rparr>, tstream)) of
                Inl (e, self2) \<Rightarrow> Raised e self2
              | Inr (self2, tstream1) \<Rightarrow>
                  (case read_names tstream1 [] of
                     Inl e \<Rightarrow> Raised e self2
                   | Inr (names, tstream2) \<Rightarrow>
                       (let self3 = self2\<lparr>req_attribute_names := names\<rparr>
                        in case is_oversized tstream2 of
                             Some e \<Rightarrow> Raised e self3
                           | None \<Rightarrow> Returned self3))))"

text \<open>The loop \<^verbatim>\<open>for x in xs: x.write(tstream)\<close> of both \<^verbatim>\<open>write\<close> methods.\<close>

fun write_each ::
  "('a \<Rightarrow> byte list \<Rightarrow> byte list outcome) \<Rightarrow> 'a list \<Rightarrow> byte list \<Rightarrow> byte list outcome" where
  "write_each w [] tstream = Returned tstream"
| "write_each w (x # xs) tstream =
     (case w x tstream of
        Raised e tstream1 \<Rightarrow> Raised e tstream1
      | Returned tstream1 \<Rightarrow> write_each w xs tstream1)"

text \<open>
  \<^verbatim>\<open>write\<close>: the state is the instance and the stream of the caller. The local stream is
  lost when a field fails to write.
\<close>

definition Request_write ::
  "GetAttributesRequestPayload \<Rightarrow> byte list
     \<Rightarrow> (GetAttributesRequestPayload \<times> byte list) outcome" where
  "Request_write self ostream =
     (case (case req_uid self of
              Some u \<Rightarrow> TextString_write u []
            | None \<Rightarrow> Returned []) of
        Raised e _ \<Rightarrow> Raised e (self, ostream)
      | Returned tstream \<Rightarrow>
          (case write_each TextString_write (req_attribute_names self) tstream of
             Raised e _ \<Rightarrow> Raised e (self, ostream)
           | Returned tstream1 \<Rightarrow>
               (let self1 = self\<lparr>req_length := Some (length tstream1)\<rparr>
                in case Base_write REQUEST_PAYLOAD STRUCTURE (length tstream1) ostream of
                     Raised e ostream1 \<Rightarrow> Raised e (self1, ostream1)
                   | Returned ostream1 \<Rightarrow> Returned (self1, ostream1 @ tstream1))))"

definition Request_eq ::
  "GetAttributesRequestPayload \<Rightarrow> GetAttributesRequestPayload \<Rightarrow> bool" where
  "Request_eq self other =
     (if Request_uid self = Request_uid other then
        (if set (Request_attribute_names self) = set (Request_attribute_names other)
         then True else False)
      else False)"

subsection \<open>GetAttributesResponsePayload\<close>

record GetAttributesResponsePayload =
  resp_length :: "nat option"
  resp_uid :: "TextString option"
  resp_attributes :: "Attribute list"

definition Response_uid :: "GetAttributesResponsePayload \<Rightarrow> string option" where
  "Response_uid self = (case resp_uid self of Some u \<Rightarrow> Some (ts_value u) | None \<Rightarrow> None)"

definition Response_uid_setter ::
  "GetAttributesResponsePayload \<Rightarrow> pyobj \<Rightarrow> GetAttributesResponsePayload outcome" where
  "Response_uid_setter self v =
     (case v of
        PyNone \<Rightarrow> Returned (self\<lparr>resp_uid := None\<rparr>)
      | PyStr s \<Rightarrow> Returned (self\<lparr>resp_uid := Some (TextString s UNIQUE_IDENTIFIER)\<rparr>)
      | _ \<Rightarrow> Raised (TypeError ''uid must be a string'') self)"

definition Response_attributes :: "GetAttributesResponsePayload \<Rightarrow> Attribute list" where
  "Response_attributes self = resp_attributes self"

text \<open>
  The loop of the \<^verbatim>\<open>attributes\<close> setter checks every element; the list that passed is
  stored as it is.
\<close>

fun attributes_loop :: "nat \<Rightarrow> pyobj list \<Rightarrow> error + Attribute list" where
  "attributes_loop i [] = Inr []"
| "attributes_loop i (attribute # rest) =
     (case attribute of
        PyAttribute a \<Rightarrow>
          (case attributes_loop (i + 1) rest of
             Inl e \<Rightarrow> Inl e
           | Inr as \<Rightarrow> Inr (a # as))
      | _ \<Rightarrow> Inl (TypeError_item
                 ''attributes must be a list of attribute objects; item {0} has type {1}''
                 (i + 1) (type_of attribute)))"

definition Response_attributes_setter ::
  "GetAttributesResponsePayload \<Rightarrow> pyobj \<Rightarrow> GetAttributesResponsePayload outcome" where
  "Response_attributes_setter self v =
     (case v of
        PyNone \<Rightarrow> Returned (self\<lparr>resp_attributes := []\<rparr>)
      | PyList xs \<Rightarrow>
          (case attributes_loop 0 xs of
             Inl e \<Rightarrow> Raised e self
           | Inr as \<Rightarrow> Returned (self\<lparr>resp_attributes := as\<rparr>))
      | _ \<Rightarrow> Raised (TypeError ''attributes must be a list of attribute objects'') self)"

definition Response_init :: "pyobj \<Rightarrow> pyobj \<Rightarrow> error + GetAttributesResponsePayload" where
  "Response_init uid attributes =
     (let self = \<lparr>resp_length = None, resp_uid = None, resp_attributes = []\<rparr>
      in case Response_uid_setter self uid of
           Raised e _ \<Rightarrow> Inl e
         | Returned self1 \<Rightarrow>
             (case Response_attributes_setter self1 attributes of
                Raised e _ \<Rightarrow> Inl e
              | Returned self2 \<Rightarrow> Inr self2))"

text \<open>
  The loop \<^verbatim>\<open>while self.is_tag_next(enums.Tags.ATTRIBUTE, tstream)\<close> of \<^verbatim>\<open>read\<close> appends to
  \<^verbatim>\<open>self._attributes\<close>: when an attribute fails to read, the instance holds those read
  before it.
\<close>

function read_attributes ::
  "byte list \<Rightarrow> Attribute list \<Rightarrow> (error \<times> Attribute list) + (Attribute list \<times> byte list)" where
  "read_attributes tstream attributes =
     (if is_tag_next ATTRIBUTE tstream then
        (case Attribute_read tstream of
           Inl e \<Rightarrow> Inl (e, attributes)
         | Inr (attribute, tstream1) \<Rightarrow> read_attributes tstream1 (attributes @ [attribute]))
      else Inr (attributes, tstream))"
  by pat_completeness auto
termination
proof (relation "measure (\<lambda>(tstream, attributes). length tstream)")
  show "wf (measure (\<lambda>(tstream, attributes). length tstream))"
    by simp
next
  fix tstream :: "byte list" and attributes :: "Attribute list" and x2 attribute tstream1
  assume "Attribute_read tstream = Inr x2" and "(attribute, tstream1) = x2"
  then show "((tstream1, attributes @ [attribute]), (tstream, attributes))
               \<in> measure (\<lambda>(tstream, attributes). length tstream)"
    by (auto simp: Attribute_read_def Base_read_def split: if_splits sum.splits)
qed

declare read_attributes.simps [simp del]

definition Response_read ::
  "GetAttributesResponsePayload \<Rightarrow> byte list \<Rightarrow> GetAttributesResponsePayload outcome" where
  "Response_read self istream =
     (case Base_read RESPONSE_PAYLOAD STRUCTURE istream of
        Inl e \<Rightarrow> Raised e self
      | Inr (n, rest) \<Rightarrow>
          (let self1 = self\<lparr>resp_length := Some n\<rparr>;
               tstream = take n rest
           in if is_tag_next UNIQUE_IDENTIFIER tstream then
                (case TextString_read UNIQUE_IDENTIFIER tstream of
                   Inl e \<Rightarrow> Raised e self1
                 | Inr (uid, tstream1) \<Rightarrow>
                     (case Response_uid_setter self1 (PyStr (ts_value uid)) of
                        Raised e self2 \<Rightarrow> Raised e self2
                      | Returned self2 \<Rightarrow>
                          (case read_attributes tstream1 [] of
                             Inl (e, attributes) \<Rightarrow>
                               Raised e (self2\<lparr>resp_attributes := attributes\<rparr>)
                           | Inr (attributes, tstream2) \<Rightarrow>
                               (let self3 = self2\<lparr>resp_attributes := attributes\<rparr>
                                in case is_oversized tstream2 of
                                     Some e \<Rightarrow> Raised e self3
                                   | None \<Rightarrow> Returned self3))))
              else Raised (InvalidKmipEncoding
                             ''expected GetAttributes response uid not found'') self1))"

definition Response_write ::
  "GetAttributesResponsePayload \<Rightarrow> byte list
     \<Rightarrow> (GetAttributesResponsePayload \<times> byte list) outcome" where
  "Response_write self ostream =
     (case resp_uid self of
        None \<Rightarrow>
          Raised (InvalidField ''The GetAttributes response uid is required.'') (self, ostream)
      | Some u \<Rightarrow>
          (case TextString_write u [] of
             Raised e _ \<Rightarrow> Raised e (self, ostream)
           | Returned tstream \<Rightarrow>
               (case write_each Attribute_write (resp_attributes self) tstream of
                  Raised e _ \<Rightarrow> Raised e (self, ostream)
                | Returned tstream1 \<Rightarrow>
                    (let self1 = self\<lparr>resp_length := Some (length tstream1)\<rparr>
                     in case Base_write RESPONSE_PAYLOAD STRUCTURE (length tstream1) ostream of
                          Raised e ostream1 \<Rightarrow> Raised e (self1, ostream1)
                        | Returned ostream1 \<Rightarrow> Returned (self1, ostream1 @ tstream1)))))"

text \<open>
  The loop of \<^verbatim>\<open>__eq__\<close>, run when the two lists have the same length: it returns
  \<^verbatim>\<open>False\<close> at the first index where the elements differ.
\<close>

fun attributes_eq_loop :: "Attribute list \<Rightarrow> Attribute list \<Rightarrow> bool" where
  "attributes_eq_loop (a # as) (b # bs) = (if a \<noteq> b then False else attributes_eq_loop as bs)"
| "attributes_eq_loop as bs = True"

definition Response_eq ::
  "GetAttributesResponsePayload \<Rightarrow> GetAttributesResponsePayload \<Rightarrow> bool" where
  "Response_eq self other =
     (if Response_uid self \<noteq> Response_uid other then False
      else if length (resp_attributes self) \<noteq> length (resp_attributes other) then False
      else attributes_eq_loop (resp_attributes self) (resp_attributes other))"

subsection \<open>Definitions that follow the spec\<close>

text \<open>
  The spec's deduplication of the attribute names: "duplicates are collapsed, keeping first
  occurrence and its position; order is otherwise preserved". The head is kept and its later
  occurrences are removed.
\<close>

fun keep_first :: "string list \<Rightarrow> string list" where
  "keep_first [] = []"
| "keep_first (x # xs) = x # keep_first (removeAll x xs)"

subsection \<open>The bytes of a payload\<close>

text \<open>
  Definitions for stating the properties. \<open>header tag ty n\<close> is what \<open>Base_write\<close> appends
  when it returns; \<open>TextString_bytes\<close> and \<open>Attribute_bytes\<close> are a field as its write
  appends it; \<open>frame tag body\<close> is a structure with that body.
\<close>

definition header :: "Tags \<Rightarrow> Types \<Rightarrow> nat \<Rightarrow> byte list" where
  "header tag ty n = be_bytes 3 (tag_value tag) @ [of_nat (type_value ty)] @ be_bytes 4 n"

definition TextString_bytes :: "TextString \<Rightarrow> byte list" where
  "TextString_bytes t =
     header (ts_tag t) TEXT_STRING (length (ts_value t)) @ map of_char (ts_value t)"

definition Attribute_bytes :: "Attribute \<Rightarrow> byte list" where
  "Attribute_bytes a =
     header ATTRIBUTE STRUCTURE (length (attribute_body a)) @ attribute_body a"

definition frame :: "Tags \<Rightarrow> byte list \<Rightarrow> byte list" where
  "frame tag body = header tag STRUCTURE (length body) @ body"

text \<open>The fields of a payload in the order \<^verbatim>\<open>write\<close> puts them on its local stream.\<close>

definition Request_body :: "GetAttributesRequestPayload \<Rightarrow> byte list" where
  "Request_body self =
     (case req_uid self of Some u \<Rightarrow> TextString_bytes u | None \<Rightarrow> [])
     @ concat (map TextString_bytes (req_attribute_names self))"

definition Response_body :: "GetAttributesResponsePayload \<Rightarrow> byte list" where
  "Response_body self =
     (case resp_uid self of Some u \<Rightarrow> TextString_bytes u | None \<Rightarrow> [])
     @ concat (map Attribute_bytes (resp_attributes self))"

text \<open>
  The tags of the text strings an instance holds. Both setters and both constructors give the
  identifier the tag \<^verbatim>\<open>UNIQUE_IDENTIFIER\<close> and every name the tag \<^verbatim>\<open>ATTRIBUTE_NAME\<close>.
\<close>

definition Request_tags :: "GetAttributesRequestPayload \<Rightarrow> bool" where
  "Request_tags self \<longleftrightarrow>
     (case req_uid self of Some u \<Rightarrow> ts_tag u = UNIQUE_IDENTIFIER | None \<Rightarrow> True)
     \<and> list_all (\<lambda>t. ts_tag t = ATTRIBUTE_NAME) (req_attribute_names self)"

definition Response_tags :: "GetAttributesResponsePayload \<Rightarrow> bool" where
  "Response_tags self \<longleftrightarrow>
     (case resp_uid self of Some u \<Rightarrow> ts_tag u = UNIQUE_IDENTIFIER | None \<Rightarrow> True)"

subsection \<open>The fields of a body\<close>

text \<open>
  For stating what is left of the bounded stream: the reads \<^verbatim>\<open>read\<close> makes on \<^verbatim>\<open>tstream\<close>,
  in their order, before \<^verbatim>\<open>is_oversized\<close>: the identifier (for the request, when its tag is
  next) and the repeated fields while their tag is next. The result is the stream they leave.
\<close>

definition Request_fields :: "byte list \<Rightarrow> error + byte list" where
  "Request_fields tstream =
     (case (if is_tag_next UNIQUE_IDENTIFIER tstream then
              (case TextString_read UNIQUE_IDENTIFIER tstream of
                 Inl e \<Rightarrow> Inl e
               | Inr (u, tstream1) \<Rightarrow> Inr tstream1)
            else Inr tstream) of
        Inl e \<Rightarrow> Inl e
      | Inr tstream1 \<Rightarrow>
          (case read_names tstream1 [] of
             Inl e \<Rightarrow> Inl e
           | Inr (names, tstream2) \<Rightarrow> Inr tstream2))"

definition Response_fields :: "byte list \<Rightarrow> error + byte list" where
  "Response_fields tstream =
     (if is_tag_next UNIQUE_IDENTIFIER tstream then
        (case TextString_read UNIQUE_IDENTIFIER tstream of
           Inl e \<Rightarrow> Inl e
         | Inr (u, tstream1) \<Rightarrow>
             (case read_attributes tstream1 [] of
                Inl (e, attributes) \<Rightarrow> Inl e
              | Inr (attributes, tstream2) \<Rightarrow> Inr tstream2))
      else Inl (InvalidKmipEncoding ''expected GetAttributes response uid not found''))"

section \<open>Properties\<close>

subsection \<open>The setters\<close>

lemma set_keep_first: "set (keep_first xs) = set xs"
  by (induction xs rule: keep_first.induct) auto

lemma distinct_keep_first: "distinct (keep_first xs)"
  by (induction xs rule: keep_first.induct) (auto simp: set_keep_first)

lemma filter_fresh_removeAll:
  "filter (\<lambda>y. y \<noteq> x \<and> y \<notin> set names) xs = removeAll x (filter (\<lambda>y. y \<notin> set names) xs)"
  by (induction xs) auto

lemma names_loop_strings:
  "names_loop i (map PyStr xs) names = Inr (names @ keep_first (filter (\<lambda>y. y \<notin> set names) xs))"
proof (induction xs arbitrary: i names)
  case Nil
  show ?case by simp
next
  case (Cons x xs)
  show ?case
    by (simp add: Cons.IH filter_fresh_removeAll)
qed

lemma names_loop_first_bad:
  "type_of x \<noteq> T_str \<Longrightarrow>
   names_loop i (map PyStr pre @ x # post) names =
     Inl (TypeError_item ''attribute_names must be a list of strings; item {0} has type {1}''
            (i + length pre + 1) (type_of x))"
  by (induction pre arbitrary: i names) (auto split: pyobj.splits)

lemma attributes_loop_first_bad:
  "type_of x \<noteq> T_Attribute \<Longrightarrow>
   attributes_loop i (map PyAttribute pre @ x # post) =
     Inl (TypeError_item ''attributes must be a list of attribute objects; item {0} has type {1}''
            (i + length pre + 1) (type_of x))"
  by (induction pre arbitrary: i) (auto split: pyobj.splits)

lemma attributes_loop_ok: "attributes_loop i (map PyAttribute as) = Inr as"
  by (induction as arbitrary: i) auto

lemma Request_attribute_names_map:
  "Request_attribute_names self = map ts_value (req_attribute_names self)"
  by (simp add: Request_attribute_names_def)

subsection \<open>Headers and fields on the wire\<close>

lemma be_nat_snoc: "be_nat (bs @ [b]) = be_nat bs * 256 + unat b"
  by (simp add: be_nat_def)

lemma length_be_bytes: "length (be_bytes k n) = k"
  by (induction k arbitrary: n) auto

lemma unat_byte_of_nat: "unat (of_nat (n mod 256) :: byte) = n mod 256"
  by (simp add: unat_of_nat)

lemma be_nat_be_bytes: "n < 256 ^ k \<Longrightarrow> be_nat (be_bytes k n) = n"
proof (induction k arbitrary: n)
  case 0
  then show ?case by (simp add: be_nat_def)
next
  case (Suc k)
  from Suc.prems have "n div 256 < 256 ^ k"
    by (simp add: less_mult_imp_div_less mult.commute)
  then have "be_nat (be_bytes k (n div 256)) = n div 256"
    by (rule Suc.IH)
  then show ?case
    by (simp add: be_nat_snoc unat_byte_of_nat)
qed

lemma tag_value_bound: "tag_value t < 256 ^ 3"
  by (cases t) simp_all

lemma tag_value_inj: "tag_value t = tag_value t' \<longleftrightarrow> t = t'"
  by (cases t; cases t') simp_all

lemma type_value_byte: "unat (of_nat (type_value ty) :: byte) = type_value ty"
  by (cases ty) simp_all

lemma length_header: "length (header tag ty n) = 8"
  by (simp add: header_def length_be_bytes)

lemma take3_header: "take 3 (header tag ty n @ rest) = be_bytes 3 (tag_value tag)"
  by (simp add: header_def length_be_bytes)

lemma is_tag_next_header: "is_tag_next t (header t' ty n @ rest) \<longleftrightarrow> t = t'"
proof -
  have "be_nat (be_bytes 3 (tag_value t')) = tag_value t'"
    by (rule be_nat_be_bytes [OF tag_value_bound])
  then have "is_tag_next t (header t' ty n @ rest) \<longleftrightarrow> tag_value t' = tag_value t"
    unfolding is_tag_next_def take3_header length_be_bytes by simp
  then show ?thesis
    using tag_value_inj [of t' t] by auto
qed

lemma Base_read_header:
  assumes "n < 2 ^ 32"
  shows "Base_read tag ty (header tag ty n @ rest) = Inr (n, rest)"
proof -
  have n: "n < 256 ^ 4" using assms by simp
  have l3: "length (be_bytes 3 (tag_value tag)) = 3" by (rule length_be_bytes)
  have nth3: "(header tag ty n @ rest) ! 3 = of_nat (type_value ty)"
    by (simp add: header_def nth_append l3)
  have t4: "take 4 (drop 4 (header tag ty n @ rest)) = be_bytes 4 n"
    by (simp add: header_def length_be_bytes)
  have d8: "drop 8 (header tag ty n @ rest) = rest"
    by (simp add: length_header)
  show ?thesis
    unfolding Base_read_def
    by (simp only: take3_header nth3 t4 d8 be_nat_be_bytes [OF n]
          be_nat_be_bytes [OF tag_value_bound] type_value_byte length_append length_header)
       simp
qed

lemma Base_write_header:
  "n < 2 ^ 32 \<Longrightarrow> Base_write tag ty n stream = Returned (stream @ header tag ty n)"
  by (simp add: Base_write_def header_def Let_def)

lemma char_of_byte_of_char: "char_of (unat (of_char c :: byte)) = c"
proof -
  have "unat (of_char c :: byte) = of_char c"
    by (metis of_char_mod_256 of_nat_of_char unat_byte_of_nat)
  then show ?thesis by simp
qed

lemma TextString_write_bytes:
  "length (ts_value t) < 2 ^ 32 \<Longrightarrow>
   TextString_write t stream = Returned (stream @ TextString_bytes t)"
  by (simp add: TextString_write_def Base_write_header TextString_bytes_def)

lemma TextString_read_bytes:
  "length (ts_value t) < 2 ^ 32 \<Longrightarrow>
   TextString_read (ts_tag t) (TextString_bytes t @ rest) = Inr (t, rest)"
  by (cases t) (simp add: TextString_read_def TextString_bytes_def Base_read_header
      char_of_byte_of_char comp_def)

lemma Attribute_write_bytes:
  "length (attribute_body a) < 2 ^ 32 \<Longrightarrow>
   Attribute_write a stream = Returned (stream @ Attribute_bytes a)"
  by (simp add: Attribute_write_def Base_write_header Attribute_bytes_def)

lemma Attribute_read_bytes:
  "length (attribute_body a) < 2 ^ 32 \<Longrightarrow>
   Attribute_read (Attribute_bytes a @ rest) = Inr (a, rest)"
  by (cases a) (simp add: Attribute_read_def Attribute_bytes_def Base_read_header)

lemma be_bytes_3:
  "be_bytes 3 n = [of_nat (n div 256 div 256 mod 256), of_nat (n div 256 mod 256), of_nat (n mod 256)]"
proof -
  have "be_bytes (Suc (Suc (Suc 0))) n
        = [of_nat (n div 256 div 256 mod 256), of_nat (n div 256 mod 256), of_nat (n mod 256)]"
    by simp
  then show ?thesis by (simp only: numeral_3_eq_3)
qed

lemma be_bytes_4:
  "be_bytes 4 n = [of_nat (n div 256 div 256 div 256 mod 256), of_nat (n div 256 div 256 mod 256),
                   of_nat (n div 256 mod 256), of_nat (n mod 256)]"
proof -
  have "be_bytes (Suc (Suc (Suc (Suc 0)))) n
        = [of_nat (n div 256 div 256 div 256 mod 256), of_nat (n div 256 div 256 mod 256),
           of_nat (n div 256 mod 256), of_nat (n mod 256)]"
    by simp
  moreover have "(4::nat) = Suc (Suc (Suc (Suc 0)))" by simp
  ultimately show ?thesis by (simp only:)
qed

lemma Base_write_Returned:
  "Base_write tag ty n stream = Returned stream' \<longleftrightarrow>
     n < 2 ^ 32 \<and> stream' = stream @ header tag ty n"
  by (auto simp: Base_write_def header_def Let_def)

lemma TextString_write_Returned:
  "TextString_write t stream = Returned stream' \<longleftrightarrow>
     length (ts_value t) < 2 ^ 32 \<and> stream' = stream @ TextString_bytes t"
  by (auto simp: TextString_write_def TextString_bytes_def Base_write_def header_def Let_def)

lemma Attribute_write_Returned:
  "Attribute_write a stream = Returned stream' \<longleftrightarrow>
     length (attribute_body a) < 2 ^ 32 \<and> stream' = stream @ Attribute_bytes a"
  by (auto simp: Attribute_write_def Attribute_bytes_def Base_write_def header_def Let_def)

lemma write_each_TextString_Returned:
  "write_each TextString_write ts stream = Returned stream' \<longleftrightarrow>
     list_all (\<lambda>t. length (ts_value t) < 2 ^ 32) ts
     \<and> stream' = stream @ concat (map TextString_bytes ts)"
proof (induction ts arbitrary: stream)
  case Nil
  show ?case by auto
next
  case (Cons t ts)
  show ?case
  proof (cases "TextString_write t stream")
    case (Returned s1)
    then have step: "write_each TextString_write (t # ts) stream = write_each TextString_write ts s1"
      by simp
    from Returned have "length (ts_value t) < 2 ^ 32" and "s1 = stream @ TextString_bytes t"
      by (simp_all add: TextString_write_Returned)
    then show ?thesis
      unfolding step Cons.IH [of s1] by auto
  next
    case (Raised e s1)
    then have step: "write_each TextString_write (t # ts) stream = Raised e s1"
      by simp
    from Raised have "\<not> length (ts_value t) < 2 ^ 32"
      using TextString_write_Returned [of t stream "stream @ TextString_bytes t"] by auto
    then show ?thesis
      unfolding step by auto
  qed
qed

lemma write_each_Attribute_Returned:
  "write_each Attribute_write as stream = Returned stream' \<longleftrightarrow>
     list_all (\<lambda>a. length (attribute_body a) < 2 ^ 32) as
     \<and> stream' = stream @ concat (map Attribute_bytes as)"
proof (induction as arbitrary: stream)
  case Nil
  show ?case by auto
next
  case (Cons a as)
  show ?case
  proof (cases "Attribute_write a stream")
    case (Returned s1)
    then have step: "write_each Attribute_write (a # as) stream = write_each Attribute_write as s1"
      by simp
    from Returned have "length (attribute_body a) < 2 ^ 32" and "s1 = stream @ Attribute_bytes a"
      by (simp_all add: Attribute_write_Returned)
    then show ?thesis
      unfolding step Cons.IH [of s1] by auto
  next
    case (Raised e s1)
    then have step: "write_each Attribute_write (a # as) stream = Raised e s1"
      by simp
    from Raised have "\<not> length (attribute_body a) < 2 ^ 32"
      using Attribute_write_Returned [of a stream "stream @ Attribute_bytes a"] by auto
    then show ?thesis
      unfolding step by auto
  qed
qed

lemma is_tag_next_TextString_bytes:
  "is_tag_next tag (TextString_bytes t @ rest) \<longleftrightarrow> tag = ts_tag t"
  by (simp add: TextString_bytes_def is_tag_next_header)

lemma is_tag_next_Attribute_bytes:
  "is_tag_next tag (Attribute_bytes a @ rest) \<longleftrightarrow> tag = ATTRIBUTE"
  by (simp add: Attribute_bytes_def is_tag_next_header)

lemma is_tag_next_Nil: "\<not> is_tag_next tag []"
  by (simp add: is_tag_next_def)

lemma read_names_bytes:
  assumes "list_all (\<lambda>t. ts_tag t = ATTRIBUTE_NAME \<and> length (ts_value t) < 2 ^ 32) ts"
    and "\<not> is_tag_next ATTRIBUTE_NAME rest"
  shows "read_names (concat (map TextString_bytes ts) @ rest) names = Inr (names @ ts, rest)"
  using assms
proof (induction ts arbitrary: names)
  case Nil
  then show ?case by (subst read_names.simps) simp
next
  case (Cons t ts)
  from Cons.prems have t: "ts_tag t = ATTRIBUTE_NAME" "length (ts_value t) < 2 ^ 32"
    and ts: "list_all (\<lambda>t. ts_tag t = ATTRIBUTE_NAME \<and> length (ts_value t) < 2 ^ 32) ts"
    by simp_all
  have next_tag: "is_tag_next ATTRIBUTE_NAME
                    (TextString_bytes t @ concat (map TextString_bytes ts) @ rest)"
    by (simp add: is_tag_next_TextString_bytes t)
  have rd: "TextString_read ATTRIBUTE_NAME
              (TextString_bytes t @ concat (map TextString_bytes ts) @ rest)
            = Inr (t, concat (map TextString_bytes ts) @ rest)"
    using TextString_read_bytes [OF t(2)] by (simp add: t(1))
  show ?case
    by (subst read_names.simps) (simp add: next_tag rd Cons.IH [OF ts Cons.prems(2)])
qed

lemma read_attributes_bytes:
  assumes "list_all (\<lambda>a. length (attribute_body a) < 2 ^ 32) as"
    and "\<not> is_tag_next ATTRIBUTE rest"
  shows "read_attributes (concat (map Attribute_bytes as) @ rest) attributes
         = Inr (attributes @ as, rest)"
  using assms
proof (induction as arbitrary: attributes)
  case Nil
  then show ?case by (subst read_attributes.simps) simp
next
  case (Cons a as)
  from Cons.prems have a: "length (attribute_body a) < 2 ^ 32"
    and as: "list_all (\<lambda>a. length (attribute_body a) < 2 ^ 32) as"
    by simp_all
  have next_tag: "is_tag_next ATTRIBUTE
                    (Attribute_bytes a @ concat (map Attribute_bytes as) @ rest)"
    by (simp add: is_tag_next_Attribute_bytes)
  have rd: "Attribute_read (Attribute_bytes a @ concat (map Attribute_bytes as) @ rest)
            = Inr (a, concat (map Attribute_bytes as) @ rest)"
    by (rule Attribute_read_bytes [OF a])
  show ?case
    by (subst read_attributes.simps) (simp add: next_tag rd Cons.IH [OF as Cons.prems(2)])
qed

lemma names_not_uid:
  "list_all (\<lambda>t. ts_tag t = ATTRIBUTE_NAME) ts \<Longrightarrow>
   \<not> is_tag_next UNIQUE_IDENTIFIER (concat (map TextString_bytes ts))"
  using is_tag_next_TextString_bytes [of UNIQUE_IDENTIFIER]
  by (cases ts) (simp_all add: is_tag_next_Nil)

lemma Base_read_frame:
  "length body < 2 ^ 32 \<Longrightarrow> Base_read tag STRUCTURE (frame tag body) = Inr (length body, body)"
  using Base_read_header [of "length body" tag STRUCTURE body] by (simp add: frame_def)

lemma length_TextString_bytes: "length (TextString_bytes t) = 8 + length (ts_value t)"
  by (simp add: TextString_bytes_def length_header)

lemma length_Attribute_bytes: "length (Attribute_bytes a) = 8 + length (attribute_body a)"
  by (simp add: Attribute_bytes_def length_header)

lemma length_concat_member: "x \<in> set xs \<Longrightarrow> length x \<le> length (concat xs)"
  by (induction xs) auto

lemma Request_body_uid_size:
  "req_uid self = Some u \<Longrightarrow> length (Request_body self) < 2 ^ 32 \<Longrightarrow>
   length (ts_value u) < 2 ^ 32"
  by (simp add: Request_body_def length_TextString_bytes)

lemma Request_body_names_size:
  assumes "length (Request_body self) < 2 ^ 32"
  shows "list_all (\<lambda>t. length (ts_value t) < 2 ^ 32) (req_attribute_names self)"
proof -
  have "length (ts_value t) < 2 ^ 32" if "t \<in> set (req_attribute_names self)" for t
  proof -
    have "TextString_bytes t \<in> set (map TextString_bytes (req_attribute_names self))"
      using that by simp
    then have "length (TextString_bytes t)
               \<le> length (concat (map TextString_bytes (req_attribute_names self)))"
      by (rule length_concat_member)
    also have "\<dots> \<le> length (Request_body self)"
      by (simp add: Request_body_def)
    finally show ?thesis
      using assms by (simp add: length_TextString_bytes)
  qed
  then show ?thesis
    by (simp add: list_all_iff)
qed

lemma write_each_TextString_sizes:
  "list_all (\<lambda>t. length (ts_value t) < 2 ^ 32) ts \<Longrightarrow>
   write_each TextString_write ts stream = Returned (stream @ concat (map TextString_bytes ts))"
  by (simp add: write_each_TextString_Returned)

lemma write_each_Attribute_sizes:
  "list_all (\<lambda>a. length (attribute_body a) < 2 ^ 32) as \<Longrightarrow>
   write_each Attribute_write as stream = Returned (stream @ concat (map Attribute_bytes as))"
  by (simp add: write_each_Attribute_Returned)

lemma Request_write_sizes:
  assumes len: "length (Request_body self) < 2 ^ 32"
  shows "Request_write self ostream
         = Returned (self\<lparr>req_length := Some (length (Request_body self))\<rparr>,
                     ostream @ frame REQUEST_PAYLOAD (Request_body self))"
proof -
  have names: "write_each TextString_write (req_attribute_names self) t
               = Returned (t @ concat (map TextString_bytes (req_attribute_names self)))" for t
    by (rule write_each_TextString_sizes [OF Request_body_names_size [OF len]])
  show ?thesis
  proof (cases "req_uid self")
    case None
    then have body: "concat (map TextString_bytes (req_attribute_names self)) = Request_body self"
      by (simp add: Request_body_def)
    show ?thesis
      unfolding Request_write_def None
      by (simp add: names body Let_def Base_write_header [OF len] frame_def)
  next
    case (Some u)
    then have body: "TextString_bytes u @ concat (map TextString_bytes (req_attribute_names self))
                     = Request_body self"
      by (simp add: Request_body_def)
    have u: "TextString_write u [] = Returned (TextString_bytes u)"
      using TextString_write_bytes [OF Request_body_uid_size [OF Some len], of "[]"] by simp
    show ?thesis
      unfolding Request_write_def Some
      by (simp add: u names body Let_def Base_write_header [OF len] frame_def)
  qed
qed

lemma Request_write_ReturnedD:
  "Request_write self ostream = Returned (self', ostream') \<Longrightarrow>
   length (Request_body self) < 2 ^ 32"
  by (auto simp: Request_write_def Request_body_def Let_def
      TextString_write_Returned write_each_TextString_Returned Base_write_Returned
      split: option.splits outcome.splits)

lemma Request_write_Returned:
  "Request_write self ostream = Returned (self', ostream') \<longleftrightarrow>
     length (Request_body self) < 2 ^ 32
     \<and> self' = self\<lparr>req_length := Some (length (Request_body self))\<rparr>
     \<and> ostream' = ostream @ frame REQUEST_PAYLOAD (Request_body self)"
  using Request_write_sizes [of self ostream] Request_write_ReturnedD [of self ostream self' ostream']
  by auto

lemma Request_read_frame:
  assumes tags: "Request_tags p" and len: "length (Request_body p) < 2 ^ 32"
  shows "Request_read self (frame REQUEST_PAYLOAD (Request_body p))
         = Returned \<lparr>req_length = Some (length (Request_body p)), req_uid = req_uid p,
                     req_attribute_names = req_attribute_names p\<rparr>"
proof -
  let ?names = "concat (map TextString_bytes (req_attribute_names p))"
  have names: "list_all (\<lambda>t. ts_tag t = ATTRIBUTE_NAME \<and> length (ts_value t) < 2 ^ 32)
                 (req_attribute_names p)"
    using tags Request_body_names_size [OF len] by (simp add: Request_tags_def list_all_iff)
  have rn: "read_names ?names [] = Inr (req_attribute_names p, [])"
    using read_names_bytes [OF names is_tag_next_Nil, of "[]"] by simp
  have hd: "Base_read REQUEST_PAYLOAD STRUCTURE (frame REQUEST_PAYLOAD (Request_body p))
            = Inr (length (Request_body p), Request_body p)"
    by (rule Base_read_frame [OF len])
  show ?thesis
  proof (cases "req_uid p")
    case None
    then have body: "Request_body p = ?names"
      by (simp add: Request_body_def)
    have "\<not> is_tag_next UNIQUE_IDENTIFIER ?names"
      using tags by (intro names_not_uid) (simp add: Request_tags_def)
    then show ?thesis
      using None rn
      unfolding Request_read_def hd
      by (simp add: Let_def is_oversized_def body)
  next
    case (Some u)
    then have body: "Request_body p = TextString_bytes u @ ?names"
      by (simp add: Request_body_def)
    have u: "ts_tag u = UNIQUE_IDENTIFIER" "length (ts_value u) < 2 ^ 32"
      using tags Some Request_body_uid_size [OF Some len] by (simp_all add: Request_tags_def)
    have nx: "is_tag_next UNIQUE_IDENTIFIER (TextString_bytes u @ ?names)"
      by (simp add: is_tag_next_TextString_bytes u)
    have rd: "TextString_read UNIQUE_IDENTIFIER (TextString_bytes u @ ?names) = Inr (u, ?names)"
      using TextString_read_bytes [OF u(2), of ?names] by (simp add: u(1))
    show ?thesis
      using Some rn
      unfolding Request_read_def hd
      by (simp add: Let_def is_oversized_def body nx rd)
  qed
qed

subsection \<open>The response payload on the wire\<close>

lemma Response_body_uid_size:
  "resp_uid self = Some u \<Longrightarrow> length (Response_body self) < 2 ^ 32 \<Longrightarrow>
   length (ts_value u) < 2 ^ 32"
  by (simp add: Response_body_def length_TextString_bytes)

lemma Response_body_attributes_size:
  assumes "length (Response_body self) < 2 ^ 32"
  shows "list_all (\<lambda>a. length (attribute_body a) < 2 ^ 32) (resp_attributes self)"
proof -
  have "length (attribute_body a) < 2 ^ 32" if "a \<in> set (resp_attributes self)" for a
  proof -
    have "Attribute_bytes a \<in> set (map Attribute_bytes (resp_attributes self))"
      using that by simp
    then have "length (Attribute_bytes a)
               \<le> length (concat (map Attribute_bytes (resp_attributes self)))"
      by (rule length_concat_member)
    also have "\<dots> \<le> length (Response_body self)"
      by (simp add: Response_body_def)
    finally show ?thesis
      using assms by (simp add: length_Attribute_bytes)
  qed
  then show ?thesis
    by (simp add: list_all_iff)
qed

lemma Response_write_sizes:
  assumes uid: "resp_uid self = Some u" and len: "length (Response_body self) < 2 ^ 32"
  shows "Response_write self ostream
         = Returned (self\<lparr>resp_length := Some (length (Response_body self))\<rparr>,
                     ostream @ frame RESPONSE_PAYLOAD (Response_body self))"
proof -
  have attributes: "write_each Attribute_write (resp_attributes self) t
               = Returned (t @ concat (map Attribute_bytes (resp_attributes self)))" for t
    by (rule write_each_Attribute_sizes [OF Response_body_attributes_size [OF len]])
  have body: "TextString_bytes u @ concat (map Attribute_bytes (resp_attributes self))
              = Response_body self"
    using uid by (simp add: Response_body_def)
  have u: "TextString_write u [] = Returned (TextString_bytes u)"
    using TextString_write_bytes [OF Response_body_uid_size [OF uid len], of "[]"] by simp
  show ?thesis
    unfolding Response_write_def uid
    by (simp add: u attributes body Let_def Base_write_header [OF len] frame_def)
qed

lemma Response_write_ReturnedD:
  "Response_write self ostream = Returned (self', ostream') \<Longrightarrow>
   (\<exists>u. resp_uid self = Some u) \<and> length (Response_body self) < 2 ^ 32"
  by (auto simp: Response_write_def Response_body_def Let_def
      TextString_write_Returned write_each_Attribute_Returned Base_write_Returned
      split: option.splits outcome.splits)

lemma Response_write_Returned:
  "Response_write self ostream = Returned (self', ostream') \<longleftrightarrow>
     (\<exists>u. resp_uid self = Some u)
     \<and> length (Response_body self) < 2 ^ 32
     \<and> self' = self\<lparr>resp_length := Some (length (Response_body self))\<rparr>
     \<and> ostream' = ostream @ frame RESPONSE_PAYLOAD (Response_body self)"
  using Response_write_sizes [of self _ ostream]
    Response_write_ReturnedD [of self ostream self' ostream']
  by auto

lemma Response_read_frame:
  assumes tags: "Response_tags p" and uid: "resp_uid p = Some u"
    and len: "length (Response_body p) < 2 ^ 32"
  shows "Response_read self (frame RESPONSE_PAYLOAD (Response_body p))
         = Returned \<lparr>resp_length = Some (length (Response_body p)), resp_uid = resp_uid p,
                     resp_attributes = resp_attributes p\<rparr>"
proof -
  let ?attributes = "concat (map Attribute_bytes (resp_attributes p))"
  have ra: "read_attributes ?attributes [] = Inr (resp_attributes p, [])"
    using read_attributes_bytes [OF Response_body_attributes_size [OF len] is_tag_next_Nil,
        of "[]"]
    by simp
  have hd: "Base_read RESPONSE_PAYLOAD STRUCTURE (frame RESPONSE_PAYLOAD (Response_body p))
            = Inr (length (Response_body p), Response_body p)"
    by (rule Base_read_frame [OF len])
  have body: "Response_body p = TextString_bytes u @ ?attributes"
    using uid by (simp add: Response_body_def)
  have u: "ts_tag u = UNIQUE_IDENTIFIER" "length (ts_value u) < 2 ^ 32"
    using tags uid Response_body_uid_size [OF uid len] by (simp_all add: Response_tags_def)
  have nx: "is_tag_next UNIQUE_IDENTIFIER (TextString_bytes u @ ?attributes)"
    by (simp add: is_tag_next_TextString_bytes u)
  have rd: "TextString_read UNIQUE_IDENTIFIER (TextString_bytes u @ ?attributes)
            = Inr (u, ?attributes)"
    using TextString_read_bytes [OF u(2), of ?attributes] by (simp add: u(1))
  have same: "TextString (ts_value u) UNIQUE_IDENTIFIER = u"
    using u(1) by (cases u) simp
  show ?thesis
    using uid ra
    unfolding Response_read_def hd
    by (simp add: Let_def is_oversized_def body nx rd Response_uid_setter_def same)
qed

lemma Request_uid_setter_tags:
  "Request_uid_setter self v = Returned self' \<Longrightarrow> Request_tags self \<Longrightarrow> Request_tags self'"
  by (auto simp: Request_uid_setter_def Request_tags_def split: pyobj.splits)

lemma Request_attribute_names_setter_tags:
  "Request_attribute_names_setter self v = Returned self' \<Longrightarrow> Request_tags self \<Longrightarrow>
   Request_tags self'"
  by (auto simp: Request_attribute_names_setter_def Request_tags_def list_all_iff
      split: pyobj.splits sum.splits)

lemma Request_init_tags:
  assumes "Request_init uid names = Inr p"
  shows "Request_tags p"
proof -
  let ?self = "\<lparr>req_length = None, req_uid = None, req_attribute_names = []\<rparr>"
  have start: "Request_tags ?self"
    by (simp add: Request_tags_def)
  from assms obtain self1 where
    uid: "Request_uid_setter ?self uid = Returned self1"
    and names: "Request_attribute_names_setter self1 names = Returned p"
    by (auto simp: Request_init_def Let_def split: outcome.splits)
  show ?thesis
    by (rule Request_attribute_names_setter_tags [OF names
          Request_uid_setter_tags [OF uid start]])
qed

lemma Response_uid_setter_tags:
  "Response_uid_setter self v = Returned self' \<Longrightarrow> Response_tags self'"
  by (auto simp: Response_uid_setter_def Response_tags_def split: pyobj.splits)

lemma Response_attributes_setter_tags:
  "Response_attributes_setter self v = Returned self' \<Longrightarrow> Response_tags self \<Longrightarrow>
   Response_tags self'"
  by (auto simp: Response_attributes_setter_def Response_tags_def
      split: pyobj.splits sum.splits)

lemma Response_init_tags:
  assumes "Response_init uid attributes = Inr p"
  shows "Response_tags p"
proof -
  let ?self = "\<lparr>resp_length = None, resp_uid = None, resp_attributes = []\<rparr>"
  from assms obtain self1 where
    uid: "Response_uid_setter ?self uid = Returned self1"
    and attributes: "Response_attributes_setter self1 attributes = Returned p"
    by (auto simp: Response_init_def Let_def split: outcome.splits)
  show ?thesis
    by (rule Response_attributes_setter_tags [OF attributes Response_uid_setter_tags [OF uid]])
qed

lemma attributes_eq_loop_refl: "attributes_eq_loop as as"
  by (induction as) auto

subsection \<open>The length of a body\<close>

lemma length_concat_TextString_bytes:
  "length (concat (map TextString_bytes ts)) = (\<Sum>t\<leftarrow>ts. 8 + length (ts_value t))"
  by (induction ts) (simp_all add: length_TextString_bytes)

lemma length_concat_Attribute_bytes:
  "length (concat (map Attribute_bytes as)) = (\<Sum>a\<leftarrow>as. 8 + length (attribute_body a))"
  by (induction as) (simp_all add: length_Attribute_bytes)

lemma length_Request_body:
  "length (Request_body self)
   = (case Request_uid self of None \<Rightarrow> 0 | Some u \<Rightarrow> 8 + length u)
     + (\<Sum>name\<leftarrow>Request_attribute_names self. 8 + length name)"
  by (cases "req_uid self")
     (simp_all add: Request_body_def Request_uid_def Request_attribute_names_map
       length_concat_TextString_bytes length_TextString_bytes comp_def)

lemma length_Response_body:
  "length (Response_body self)
   = (case Response_uid self of None \<Rightarrow> 0 | Some u \<Rightarrow> 8 + length u)
     + (\<Sum>a\<leftarrow>Response_attributes self. 8 + length (attribute_body a))"
  by (cases "resp_uid self")
     (simp_all add: Response_body_def Response_uid_def Response_attributes_def
       length_concat_Attribute_bytes length_TextString_bytes)

subsection \<open>A decode does not depend on the instance\<close>

lemma Request_read_indep:
  "Request_read self istream = Returned s \<Longrightarrow> Request_read other istream = Returned s"
  by (cases self; cases other)
     (auto simp: Request_read_def Let_def split: sum.splits prod.splits if_splits option.splits)

lemma Response_read_indep:
  "Response_read self istream = Returned s \<Longrightarrow> Response_read other istream = Returned s"
  by (cases self; cases other)
     (auto simp: Response_read_def Response_uid_setter_def Let_def
       split: sum.splits prod.splits if_splits option.splits)

subsection \<open>Worked examples\<close>

text \<open>
  A request with the identifier \<^verbatim>\<open>"x"\<close> and the names \<^verbatim>\<open>"a"\<close>, \<^verbatim>\<open>"b"\<close>; a response with the
  identifier \<^verbatim>\<open>"x"\<close> and two attributes; and bodies with one byte after the identifier.
\<close>

lemma ex_request_init:
  "Request_init (PyStr ''x'') (PyList [PyStr ''a'', PyStr ''b'', PyStr ''a''])
   = Inr \<lparr>req_length = None, req_uid = Some (TextString ''x'' UNIQUE_IDENTIFIER),
          req_attribute_names = [TextString ''a'' ATTRIBUTE_NAME, TextString ''b'' ATTRIBUTE_NAME]\<rparr>"
  by (simp add: Request_init_def Request_uid_setter_def Request_attribute_names_setter_def)

lemma ex_request_write:
  "Request_write \<lparr>req_length = None, req_uid = Some (TextString ''x'' UNIQUE_IDENTIFIER),
          req_attribute_names = [TextString ''a'' ATTRIBUTE_NAME, TextString ''b'' ATTRIBUTE_NAME]\<rparr> []
   = Returned (\<lparr>req_length = Some 27, req_uid = Some (TextString ''x'' UNIQUE_IDENTIFIER),
          req_attribute_names = [TextString ''a'' ATTRIBUTE_NAME, TextString ''b'' ATTRIBUTE_NAME]\<rparr>,
        [0x42, 0x00, 0x79, 0x01, 0, 0, 0, 27,
         0x42, 0x00, 0x94, 0x07, 0, 0, 0, 1, 0x78,
         0x42, 0x00, 0x0A, 0x07, 0, 0, 0, 1, 0x61,
         0x42, 0x00, 0x0A, 0x07, 0, 0, 0, 1, 0x62])"
  by (simp add: Request_write_def TextString_write_def Base_write_def be_bytes_3 be_bytes_4)

lemma ex_response_init:
  "Response_init (PyStr ''x'') (PyList [PyAttribute (Attribute [1, 2]), PyAttribute (Attribute [])])
   = Inr \<lparr>resp_length = None, resp_uid = Some (TextString ''x'' UNIQUE_IDENTIFIER),
          resp_attributes = [Attribute [1, 2], Attribute []]\<rparr>"
  by (simp add: Response_init_def Response_uid_setter_def Response_attributes_setter_def)

lemma ex_response_write:
  "Response_write \<lparr>resp_length = None, resp_uid = Some (TextString ''x'' UNIQUE_IDENTIFIER),
          resp_attributes = [Attribute [1, 2], Attribute []]\<rparr> []
   = Returned (\<lparr>resp_length = Some 27, resp_uid = Some (TextString ''x'' UNIQUE_IDENTIFIER),
          resp_attributes = [Attribute [1, 2], Attribute []]\<rparr>,
        [0x42, 0x00, 0x7C, 0x01, 0, 0, 0, 27,
         0x42, 0x00, 0x94, 0x07, 0, 0, 0, 1, 0x78,
         0x42, 0x00, 0x08, 0x01, 0, 0, 0, 2, 1, 2,
         0x42, 0x00, 0x08, 0x01, 0, 0, 0, 0])"
  by (simp add: Response_write_def TextString_write_def Attribute_write_def Base_write_def
      be_bytes_3 be_bytes_4)

lemma ex_response_no_uid:
  "Base_read RESPONSE_PAYLOAD STRUCTURE
     [0x42, 0x00, 0x7C, 0x01, 0, 0, 0, 10, 0x42, 0x00, 0x08, 0x01, 0, 0, 0, 2, 1, 2]
   = Inr (10, [0x42, 0x00, 0x08, 0x01, 0, 0, 0, 2, 1, 2])"
  by (simp add: Base_read_def be_nat_def)

lemma ex_request_read:
  "Request_read self
     [0x42, 0x00, 0x79, 0x01, 0, 0, 0, 27,
      0x42, 0x00, 0x94, 0x07, 0, 0, 0, 1, 0x78,
      0x42, 0x00, 0x0A, 0x07, 0, 0, 0, 1, 0x61,
      0x42, 0x00, 0x0A, 0x07, 0, 0, 0, 1, 0x62]
   = Returned (self\<lparr>req_length := Some 27,
                     req_uid := Some (TextString ''x'' UNIQUE_IDENTIFIER),
                     req_attribute_names := [TextString ''a'' ATTRIBUTE_NAME,
                                             TextString ''b'' ATTRIBUTE_NAME]\<rparr>)"
  by (simp add: Request_read_def Base_read_def TextString_read_def be_nat_def is_tag_next_def
      is_oversized_def read_names.simps char_of_def bit_0)

lemma ex_response_read:
  "Response_read self
     [0x42, 0x00, 0x7C, 0x01, 0, 0, 0, 27,
      0x42, 0x00, 0x94, 0x07, 0, 0, 0, 1, 0x78,
      0x42, 0x00, 0x08, 0x01, 0, 0, 0, 2, 1, 2,
      0x42, 0x00, 0x08, 0x01, 0, 0, 0, 0]
   = Returned (self\<lparr>resp_length := Some 27,
                     resp_uid := Some (TextString ''x'' UNIQUE_IDENTIFIER),
                     resp_attributes := [Attribute [1, 2], Attribute []]\<rparr>)"
  by (simp add: Response_read_def Base_read_def TextString_read_def Attribute_read_def
      Response_uid_setter_def be_nat_def is_tag_next_def
      is_oversized_def read_attributes.simps char_of_def bit_0)

lemma ex_request_trailing:
  "Request_read self
     [0x42, 0x00, 0x79, 0x01, 0, 0, 0, 10, 0x42, 0x00, 0x94, 0x07, 0, 0, 0, 1, 0x78, 0]
   = Raised (InvalidKmipEncoding ''oversized'')
       (self\<lparr>req_length := Some 10, req_uid := Some (TextString ''x'' UNIQUE_IDENTIFIER),
              req_attribute_names := []\<rparr>)"
  by (simp add: Request_read_def Base_read_def TextString_read_def be_nat_def is_tag_next_def
      is_oversized_def read_names.simps char_of_def bit_0)

lemma ex_response_trailing:
  "Response_read self
     [0x42, 0x00, 0x7C, 0x01, 0, 0, 0, 10, 0x42, 0x00, 0x94, 0x07, 0, 0, 0, 1, 0x78, 0]
   = Raised (InvalidKmipEncoding ''oversized'')
       (self\<lparr>resp_length := Some 10, resp_uid := Some (TextString ''x'' UNIQUE_IDENTIFIER),
              resp_attributes := []\<rparr>)"
  by (simp add: Response_read_def Base_read_def TextString_read_def Response_uid_setter_def
      be_nat_def is_tag_next_def is_oversized_def read_attributes.simps char_of_def bit_0)

lemma ex_request_header:
  "Base_read REQUEST_PAYLOAD STRUCTURE
     [0x42, 0x00, 0x79, 0x01, 0, 0, 0, 10, 0x42, 0x00, 0x94, 0x07, 0, 0, 0, 1, 0x78, 0]
   = Inr (10, [0x42, 0x00, 0x94, 0x07, 0, 0, 0, 1, 0x78, 0])"
  by (simp add: Base_read_def be_nat_def)

lemma ex_response_header:
  "Base_read RESPONSE_PAYLOAD STRUCTURE
     [0x42, 0x00, 0x7C, 0x01, 0, 0, 0, 10, 0x42, 0x00, 0x94, 0x07, 0, 0, 0, 1, 0x78, 0]
   = Inr (10, [0x42, 0x00, 0x94, 0x07, 0, 0, 0, 1, 0x78, 0])"
  by (simp add: Base_read_def be_nat_def)

lemma ex_request_fields:
  "Request_fields [0x42, 0x00, 0x94, 0x07, 0, 0, 0, 1, 0x78, 0] = Inr [0]"
  by (simp add: Request_fields_def Base_read_def TextString_read_def be_nat_def is_tag_next_def
      read_names.simps)

lemma ex_response_fields:
  "Response_fields [0x42, 0x00, 0x94, 0x07, 0, 0, 0, 1, 0x78, 0] = Inr [0]"
  by (simp add: Response_fields_def Base_read_def TextString_read_def be_nat_def
      is_tag_next_def read_attributes.simps)

section \<open>The claims\<close>

text \<open>
  C1: round trip. For every request payload the constructor builds (any identifier, absent or
  a string; any list of names, stored without duplicates) whose body is shorter than
  \<open>2 ^ 32\<close> bytes (eight bytes of header and the characters, for the identifier and for each
  name), \<^verbatim>\<open>write\<close> returns bytes, and \<^verbatim>\<open>read\<close> of these bytes, on any instance, returns and
  leaves a payload equal to the first under \<^verbatim>\<open>__eq__\<close>. The same holds for every response
  payload the constructor builds with a present identifier, the body being the identifier
  and, for each attribute, eight bytes of header and its body. The bound excludes no payload
  that can be encoded: \<^verbatim>\<open>write\<close> returns only within it.
\<close>

theorem C1_round_trip:
  "(Request_init uid names = Inr p \<longrightarrow>
    (case Request_uid p of None \<Rightarrow> 0 | Some u \<Rightarrow> 8 + length u)
      + (\<Sum>name\<leftarrow>Request_attribute_names p. 8 + length name) < 2 ^ 32 \<longrightarrow>
      (\<exists>p' bs. Request_write p [] = Returned (p', bs)
         \<and> (\<exists>q'. Request_read q bs = Returned q' \<and> Request_eq q' p)))
   \<and> (Request_write p [] = Returned (p', bs) \<longrightarrow>
      (case Request_uid p of None \<Rightarrow> 0 | Some u \<Rightarrow> 8 + length u)
        + (\<Sum>name\<leftarrow>Request_attribute_names p. 8 + length name) < 2 ^ 32)
   \<and> (Response_init ruid attributes = Inr r \<longrightarrow> Response_uid r = Some v \<longrightarrow>
    8 + length v + (\<Sum>a\<leftarrow>Response_attributes r. 8 + length (attribute_body a)) < 2 ^ 32 \<longrightarrow>
      (\<exists>r' rbs. Response_write r [] = Returned (r', rbs)
         \<and> (\<exists>s'. Response_read s rbs = Returned s' \<and> Response_eq s' r)))
   \<and> (Response_write r [] = Returned (r', rbs) \<longrightarrow>
      (\<exists>v. Response_uid r = Some v
         \<and> 8 + length v + (\<Sum>a\<leftarrow>Response_attributes r. 8 + length (attribute_body a))
             < 2 ^ 32))"
proof (intro conjI impI)
  assume init: "Request_init uid names = Inr p"
    and size: "(case Request_uid p of None \<Rightarrow> 0 | Some u \<Rightarrow> 8 + length u)
      + (\<Sum>name\<leftarrow>Request_attribute_names p. 8 + length name) < 2 ^ 32"
  from size have len: "length (Request_body p) < 2 ^ 32"
    by (simp only: length_Request_body)
  have wr: "Request_write p []
            = Returned (p\<lparr>req_length := Some (length (Request_body p))\<rparr>,
                        frame REQUEST_PAYLOAD (Request_body p))"
    using Request_write_sizes [OF len, of "[]"] by simp
  have rd: "Request_read q (frame REQUEST_PAYLOAD (Request_body p))
        = Returned \<lparr>req_length = Some (length (Request_body p)), req_uid = req_uid p,
                    req_attribute_names = req_attribute_names p\<rparr>"
    by (rule Request_read_frame [OF Request_init_tags [OF init] len])
  have "Request_eq \<lparr>req_length = Some (length (Request_body p)), req_uid = req_uid p,
                    req_attribute_names = req_attribute_names p\<rparr> p"
    by (simp add: Request_eq_def Request_uid_def Request_attribute_names_def)
  with wr rd show "\<exists>p' bs. Request_write p [] = Returned (p', bs)
         \<and> (\<exists>q'. Request_read q bs = Returned q' \<and> Request_eq q' p)"
    by blast
next
  assume "Request_write p [] = Returned (p', bs)"
  then have "length (Request_body p) < 2 ^ 32"
    by (rule Request_write_ReturnedD)
  then show "(case Request_uid p of None \<Rightarrow> 0 | Some u \<Rightarrow> 8 + length u)
        + (\<Sum>name\<leftarrow>Request_attribute_names p. 8 + length name) < 2 ^ 32"
    by (simp only: length_Request_body)
next
  assume init: "Response_init ruid attributes = Inr r"
    and v: "Response_uid r = Some v"
    and size: "8 + length v
      + (\<Sum>a\<leftarrow>Response_attributes r. 8 + length (attribute_body a)) < 2 ^ 32"
  from v obtain u where uid: "resp_uid r = Some u"
    by (auto simp: Response_uid_def split: option.splits)
  from size v have len: "length (Response_body r) < 2 ^ 32"
    by (simp add: length_Response_body)
  have wr: "Response_write r []
            = Returned (r\<lparr>resp_length := Some (length (Response_body r))\<rparr>,
                        frame RESPONSE_PAYLOAD (Response_body r))"
    using Response_write_sizes [OF uid len, of "[]"] by simp
  have rd: "Response_read s (frame RESPONSE_PAYLOAD (Response_body r))
        = Returned \<lparr>resp_length = Some (length (Response_body r)), resp_uid = resp_uid r,
                    resp_attributes = resp_attributes r\<rparr>"
    by (rule Response_read_frame [OF Response_init_tags [OF init] uid len])
  have "Response_eq \<lparr>resp_length = Some (length (Response_body r)), resp_uid = resp_uid r,
                     resp_attributes = resp_attributes r\<rparr> r"
    by (simp add: Response_eq_def Response_uid_def attributes_eq_loop_refl)
  with wr rd show "\<exists>r' rbs. Response_write r [] = Returned (r', rbs)
         \<and> (\<exists>s'. Response_read s rbs = Returned s' \<and> Response_eq s' r)"
    by blast
next
  assume "Response_write r [] = Returned (r', rbs)"
  then obtain u where uid: "resp_uid r = Some u" and len: "length (Response_body r) < 2 ^ 32"
    using Response_write_ReturnedD by blast
  from uid have v: "Response_uid r = Some (ts_value u)"
    by (simp add: Response_uid_def)
  with len have "8 + length (ts_value u)
      + (\<Sum>a\<leftarrow>Response_attributes r. 8 + length (attribute_body a)) < 2 ^ 32"
    by (simp add: length_Response_body)
  with v show "\<exists>v. Response_uid r = Some v
         \<and> 8 + length v + (\<Sum>a\<leftarrow>Response_attributes r. 8 + length (attribute_body a))
             < 2 ^ 32"
    by blast
qed

theorem C1_round_trip_witness:
  "Request_init (PyStr ''x'') (PyList [PyStr ''a'', PyStr ''b'', PyStr ''a''])
     = Inr \<lparr>req_length = None, req_uid = Some (TextString ''x'' UNIQUE_IDENTIFIER),
            req_attribute_names = [TextString ''a'' ATTRIBUTE_NAME,
                                   TextString ''b'' ATTRIBUTE_NAME]\<rparr>
   \<and> (\<exists>p' bs.
        Request_write
          \<lparr>req_length = None, req_uid = Some (TextString ''x'' UNIQUE_IDENTIFIER),
           req_attribute_names = [TextString ''a'' ATTRIBUTE_NAME,
                                  TextString ''b'' ATTRIBUTE_NAME]\<rparr> [] = Returned (p', bs)
        \<and> (\<exists>q'. Request_read \<lparr>req_length = None, req_uid = None, req_attribute_names = []\<rparr>
                   bs = Returned q'
               \<and> Request_eq q'
                    \<lparr>req_length = None, req_uid = Some (TextString ''x'' UNIQUE_IDENTIFIER),
                     req_attribute_names = [TextString ''a'' ATTRIBUTE_NAME,
                                            TextString ''b'' ATTRIBUTE_NAME]\<rparr>))
   \<and> Request_write
        \<lparr>req_length = None, req_uid = Some (TextString ''x'' UNIQUE_IDENTIFIER),
         req_attribute_names = [TextString ''a'' ATTRIBUTE_NAME,
                                TextString ''b'' ATTRIBUTE_NAME]\<rparr> []
      = Returned
          (\<lparr>req_length = Some 27, req_uid = Some (TextString ''x'' UNIQUE_IDENTIFIER),
            req_attribute_names = [TextString ''a'' ATTRIBUTE_NAME,
                                   TextString ''b'' ATTRIBUTE_NAME]\<rparr>,
           [0x42, 0x00, 0x79, 0x01, 0, 0, 0, 27,
            0x42, 0x00, 0x94, 0x07, 0, 0, 0, 1, 0x78,
            0x42, 0x00, 0x0A, 0x07, 0, 0, 0, 1, 0x61,
            0x42, 0x00, 0x0A, 0x07, 0, 0, 0, 1, 0x62])
   \<and> Response_init (PyStr ''x'')
        (PyList [PyAttribute (Attribute [1, 2]), PyAttribute (Attribute [])])
      = Inr \<lparr>resp_length = None, resp_uid = Some (TextString ''x'' UNIQUE_IDENTIFIER),
             resp_attributes = [Attribute [1, 2], Attribute []]\<rparr>
   \<and> (\<exists>r' rbs.
        Response_write
          \<lparr>resp_length = None, resp_uid = Some (TextString ''x'' UNIQUE_IDENTIFIER),
           resp_attributes = [Attribute [1, 2], Attribute []]\<rparr> [] = Returned (r', rbs)
        \<and> (\<exists>s'. Response_read \<lparr>resp_length = None, resp_uid = None, resp_attributes = []\<rparr>
                   rbs = Returned s'
               \<and> Response_eq s'
                    \<lparr>resp_length = None, resp_uid = Some (TextString ''x'' UNIQUE_IDENTIFIER),
                     resp_attributes = [Attribute [1, 2], Attribute []]\<rparr>))
   \<and> Response_write
        \<lparr>resp_length = None, resp_uid = Some (TextString ''x'' UNIQUE_IDENTIFIER),
         resp_attributes = [Attribute [1, 2], Attribute []]\<rparr> []
      = Returned
          (\<lparr>resp_length = Some 27, resp_uid = Some (TextString ''x'' UNIQUE_IDENTIFIER),
            resp_attributes = [Attribute [1, 2], Attribute []]\<rparr>,
           [0x42, 0x00, 0x7C, 0x01, 0, 0, 0, 27,
            0x42, 0x00, 0x94, 0x07, 0, 0, 0, 1, 0x78,
            0x42, 0x00, 0x08, 0x01, 0, 0, 0, 2, 1, 2,
            0x42, 0x00, 0x08, 0x01, 0, 0, 0, 0])"
proof -
  let ?p = "\<lparr>req_length = None, req_uid = Some (TextString ''x'' UNIQUE_IDENTIFIER),
             req_attribute_names = [TextString ''a'' ATTRIBUTE_NAME,
                                    TextString ''b'' ATTRIBUTE_NAME]\<rparr>"
  let ?r = "\<lparr>resp_length = None, resp_uid = Some (TextString ''x'' UNIQUE_IDENTIFIER),
             resp_attributes = [Attribute [1, 2], Attribute []]\<rparr>"
  have psize: "(case Request_uid ?p of None \<Rightarrow> 0 | Some u \<Rightarrow> 8 + length u)
      + (\<Sum>name\<leftarrow>Request_attribute_names ?p. 8 + length name) < 2 ^ 32"
    by (simp add: Request_uid_def Request_attribute_names_def)
  have ruid: "Response_uid ?r = Some ''x''"
    by (simp add: Response_uid_def)
  have rsize: "8 + length ''x''
      + (\<Sum>a\<leftarrow>Response_attributes ?r. 8 + length (attribute_body a)) < 2 ^ 32"
    by (simp add: Response_attributes_def)
  note rt = C1_round_trip
    [where uid = "PyStr ''x''" and names = "PyList [PyStr ''a'', PyStr ''b'', PyStr ''a'']"
       and p = ?p and q = "\<lparr>req_length = None, req_uid = None, req_attribute_names = []\<rparr>"
       and ruid = "PyStr ''x''"
       and attributes = "PyList [PyAttribute (Attribute [1, 2]), PyAttribute (Attribute [])]"
       and r = ?r and v = "''x''"
       and s = "\<lparr>resp_length = None, resp_uid = None, resp_attributes = []\<rparr>"]
  have request: "\<exists>p' bs. Request_write ?p [] = Returned (p', bs)
        \<and> (\<exists>q'. Request_read \<lparr>req_length = None, req_uid = None, req_attribute_names = []\<rparr>
                   bs = Returned q' \<and> Request_eq q' ?p)"
    using rt [THEN conjunct1] ex_request_init psize by blast
  have response: "\<exists>r' rbs. Response_write ?r [] = Returned (r', rbs)
        \<and> (\<exists>s'. Response_read \<lparr>resp_length = None, resp_uid = None, resp_attributes = []\<rparr>
                   rbs = Returned s' \<and> Response_eq s' ?r)"
    using rt [THEN conjunct2, THEN conjunct2, THEN conjunct1] ex_response_init ruid rsize
    by blast
  show ?thesis
    using request response ex_request_init ex_request_write ex_response_init ex_response_write
    by blast
qed

text \<open>
  C2: \<^verbatim>\<open>write\<close> of a response payload whose identifier is absent raises \<^verbatim>\<open>InvalidField\<close>
  ("The GetAttributes response uid is required."), and neither the instance nor the stream
  of the caller changes; when \<^verbatim>\<open>write\<close> returns, the identifier is present and is the first
  field of the body written.
\<close>

theorem C2_response_write_needs_uid:
  "(resp_uid self = None \<longrightarrow>
      Response_write self ostream
        = Raised (InvalidField ''The GetAttributes response uid is required.'') (self, ostream))
   \<and> (Response_write self ostream = Returned (self', ostream') \<longrightarrow>
      (\<exists>u rest. resp_uid self = Some u
         \<and> ostream' = ostream @ header RESPONSE_PAYLOAD STRUCTURE (length (Response_body self))
                        @ TextString_bytes u @ rest))"
proof (intro conjI impI)
  assume "resp_uid self = None"
  then show "Response_write self ostream
        = Raised (InvalidField ''The GetAttributes response uid is required.'') (self, ostream)"
    by (simp add: Response_write_def)
next
  assume "Response_write self ostream = Returned (self', ostream')"
  then obtain u where "resp_uid self = Some u"
    and "ostream' = ostream @ frame RESPONSE_PAYLOAD (Response_body self)"
    by (auto simp: Response_write_Returned)
  then show "\<exists>u rest. resp_uid self = Some u
         \<and> ostream' = ostream @ header RESPONSE_PAYLOAD STRUCTURE (length (Response_body self))
                        @ TextString_bytes u @ rest"
    by (simp add: frame_def Response_body_def)
qed

theorem C2_response_write_needs_uid_witness:
  "Response_write \<lparr>resp_length = None, resp_uid = None, resp_attributes = [Attribute [1, 2]]\<rparr> []
     = Raised (InvalidField ''The GetAttributes response uid is required.'')
         (\<lparr>resp_length = None, resp_uid = None, resp_attributes = [Attribute [1, 2]]\<rparr>, [])
   \<and> Response_write
        \<lparr>resp_length = None, resp_uid = Some (TextString ''x'' UNIQUE_IDENTIFIER),
         resp_attributes = [Attribute [1, 2], Attribute []]\<rparr> []
      = Returned
          (\<lparr>resp_length = Some 27, resp_uid = Some (TextString ''x'' UNIQUE_IDENTIFIER),
            resp_attributes = [Attribute [1, 2], Attribute []]\<rparr>,
           [0x42, 0x00, 0x7C, 0x01, 0, 0, 0, 27,
            0x42, 0x00, 0x94, 0x07, 0, 0, 0, 1, 0x78,
            0x42, 0x00, 0x08, 0x01, 0, 0, 0, 2, 1, 2,
            0x42, 0x00, 0x08, 0x01, 0, 0, 0, 0])
   \<and> (\<exists>rest. [0x42, 0x00, 0x7C, 0x01, 0, 0, 0, 27,
               0x42, 0x00, 0x94, 0x07, 0, 0, 0, 1, 0x78,
               0x42, 0x00, 0x08, 0x01, 0, 0, 0, 2, 1, 2,
               0x42, 0x00, 0x08, 0x01, 0, 0, 0, 0]
              = header RESPONSE_PAYLOAD STRUCTURE 27
                @ TextString_bytes (TextString ''x'' UNIQUE_IDENTIFIER) @ rest)"
proof -
  have len: "length (Response_body
               \<lparr>resp_length = None, resp_uid = Some (TextString ''x'' UNIQUE_IDENTIFIER),
                resp_attributes = [Attribute [1, 2], Attribute []]\<rparr>) = 27"
    by (simp add: Response_body_def length_TextString_bytes length_Attribute_bytes)
  show ?thesis
    using C2_response_write_needs_uid
      [of "\<lparr>resp_length = None, resp_uid = None, resp_attributes = [Attribute [1, 2]]\<rparr>" "[]"]
      C2_response_write_needs_uid
      [of "\<lparr>resp_length = None, resp_uid = Some (TextString ''x'' UNIQUE_IDENTIFIER),
             resp_attributes = [Attribute [1, 2], Attribute []]\<rparr>" "[]"]
      ex_response_write
    by (simp add: len)
qed

text \<open>
  C3: when the header of a response payload reads and the tag of the identifier is not next
  in its body, \<^verbatim>\<open>read\<close> raises \<^verbatim>\<open>InvalidKmipEncoding\<close> ("expected GetAttributes response uid
  not found"); a \<^verbatim>\<open>read\<close> that returns leaves an instance whose identifier is present.
\<close>

theorem C3_response_read_needs_uid:
  "(Base_read RESPONSE_PAYLOAD STRUCTURE istream = Inr (n, rest) \<longrightarrow>
    \<not> is_tag_next UNIQUE_IDENTIFIER (take n rest) \<longrightarrow>
      Response_read self istream
        = Raised (InvalidKmipEncoding ''expected GetAttributes response uid not found'')
            (self\<lparr>resp_length := Some n\<rparr>))
   \<and> (Response_read self istream = Returned self' \<longrightarrow> (\<exists>v. Response_uid self' = Some v))"
  by (auto simp: Response_read_def Response_uid_def Response_uid_setter_def Let_def
      split: sum.splits prod.splits if_splits option.splits)

theorem C3_response_read_needs_uid_witness:
  "\<not> is_tag_next UNIQUE_IDENTIFIER [0x42, 0x00, 0x08, 0x01, 0, 0, 0, 2, 1, 2]
   \<and> Response_read \<lparr>resp_length = None, resp_uid = None, resp_attributes = []\<rparr>
        [0x42, 0x00, 0x7C, 0x01, 0, 0, 0, 10, 0x42, 0x00, 0x08, 0x01, 0, 0, 0, 2, 1, 2]
      = Raised (InvalidKmipEncoding ''expected GetAttributes response uid not found'')
          \<lparr>resp_length = Some 10, resp_uid = None, resp_attributes = []\<rparr>"
proof -
  have nx: "\<not> is_tag_next UNIQUE_IDENTIFIER [0x42, 0x00, 0x08, 0x01, 0, 0, 0, 2, 1, 2]"
    by (simp add: is_tag_next_def be_nat_def)
  show ?thesis
    using C3_response_read_needs_uid
      [of "[0x42, 0x00, 0x7C, 0x01, 0, 0, 0, 10, 0x42, 0x00, 0x08, 0x01, 0, 0, 0, 2, 1, 2]"
        10 "[0x42, 0x00, 0x08, 0x01, 0, 0, 0, 2, 1, 2]"
        "\<lparr>resp_length = None, resp_uid = None, resp_attributes = []\<rparr>"]
      ex_response_no_uid nx
    by simp
qed

text \<open>
  C4: for every list of strings given to the \<^verbatim>\<open>attribute_names\<close> setter or to the
  constructor of the request payload, the names stored are the input with duplicates removed,
  the first occurrence of each value kept in its position; the names are then distinct and
  the same set as the input. The input \<^verbatim>\<open>["a","b","a","c"]\<close> is stored as \<^verbatim>\<open>["a","b","c"]\<close>.
\<close>

theorem C4_names_keep_first:
  "(\<exists>self'. Request_attribute_names_setter self (PyList (map PyStr xs)) = Returned self'
        \<and> Request_attribute_names self' = keep_first xs)
   \<and> (\<exists>self'. Request_init PyNone (PyList (map PyStr xs)) = Inr self'
        \<and> Request_attribute_names self' = keep_first xs)
   \<and> (\<exists>self'. Request_init (PyStr uid) (PyList (map PyStr xs)) = Inr self'
        \<and> Request_attribute_names self' = keep_first xs)
   \<and> distinct (keep_first xs) \<and> set (keep_first xs) = set xs
   \<and> (\<exists>self'. Request_init PyNone (PyList [PyStr ''a'', PyStr ''b'', PyStr ''a'', PyStr ''c''])
                 = Inr self'
        \<and> Request_attribute_names self' = [''a'', ''b'', ''c''])"
proof -
  have setter: "\<exists>self'. Request_attribute_names_setter self (PyList (map PyStr ys)) = Returned self'
        \<and> Request_attribute_names self' = keep_first ys" for self ys
    by (simp add: Request_attribute_names_setter_def names_loop_strings
        Request_attribute_names_map comp_def)
  have init_none: "\<exists>self'. Request_init PyNone (PyList (map PyStr ys)) = Inr self'
        \<and> Request_attribute_names self' = keep_first ys" for ys
    by (simp add: Request_init_def Request_uid_setter_def Request_attribute_names_setter_def
        names_loop_strings Request_attribute_names_map comp_def)
  have init_str: "\<exists>self'. Request_init (PyStr uid) (PyList (map PyStr xs)) = Inr self'
        \<and> Request_attribute_names self' = keep_first xs"
    by (simp add: Request_init_def Request_uid_setter_def Request_attribute_names_setter_def
        names_loop_strings Request_attribute_names_map comp_def)
  have example: "\<exists>self'. Request_init PyNone
                   (PyList [PyStr ''a'', PyStr ''b'', PyStr ''a'', PyStr ''c'']) = Inr self'
        \<and> Request_attribute_names self' = [''a'', ''b'', ''c'']"
    using init_none [of "[''a'', ''b'', ''a'', ''c'']"] by simp
  show ?thesis
    using setter init_none init_str example distinct_keep_first set_keep_first by blast
qed

theorem C4_names_keep_first_witness:
  "\<exists>self'. Request_init PyNone (PyList (map PyStr [''a'', ''b'', ''a'', ''c''])) = Inr self'
      \<and> Request_attribute_names self' = [''a'', ''b'', ''c'']"
  using C4_names_keep_first [of "\<lparr>req_length = None, req_uid = None, req_attribute_names = []\<rparr>"
      "[''a'', ''b'', ''a'', ''c'']" "[]"]
  by simp

text \<open>
  C5: two request payloads with equal identifiers whose names are equal as sets are equal, so
  those built with \<^verbatim>\<open>["a","b"]\<close> and \<^verbatim>\<open>["b","a"]\<close> are; two response payloads with equal
  identifiers and the attributes \<^verbatim>\<open>[X,Y]\<close> and \<^verbatim>\<open>[Y,X]\<close>, \<^verbatim>\<open>X\<close> and \<^verbatim>\<open>Y\<close> different, are not
  equal.
\<close>

theorem C5_equality_order:
  "(Request_uid p = Request_uid q \<longrightarrow>
    set (Request_attribute_names p) = set (Request_attribute_names q) \<longrightarrow> Request_eq p q)
   \<and> (Request_init uid (PyList [PyStr ''a'', PyStr ''b'']) = Inr p1 \<longrightarrow>
      Request_init uid (PyList [PyStr ''b'', PyStr ''a'']) = Inr p2 \<longrightarrow> Request_eq p1 p2)
   \<and> (X \<noteq> Y \<longrightarrow> Response_uid r1 = Response_uid r2 \<longrightarrow>
      resp_attributes r1 = [X, Y] \<longrightarrow> resp_attributes r2 = [Y, X] \<longrightarrow> \<not> Response_eq r1 r2)
   \<and> (X \<noteq> Y \<longrightarrow> Response_init ruid (PyList [PyAttribute X, PyAttribute Y]) = Inr r3 \<longrightarrow>
      Response_init ruid (PyList [PyAttribute Y, PyAttribute X]) = Inr r4 \<longrightarrow>
      Response_uid r3 = Response_uid r4 \<and> \<not> Response_eq r3 r4)"
proof (intro conjI impI)
  assume "Request_uid p = Request_uid q"
    and "set (Request_attribute_names p) = set (Request_attribute_names q)"
  then show "Request_eq p q"
    by (simp add: Request_eq_def)
next
  assume "Request_init uid (PyList [PyStr ''a'', PyStr ''b'']) = Inr p1"
    and "Request_init uid (PyList [PyStr ''b'', PyStr ''a'']) = Inr p2"
  then show "Request_eq p1 p2"
    by (auto simp: Request_init_def Request_uid_setter_def Request_attribute_names_setter_def
        Request_eq_def Request_uid_def Request_attribute_names_def Let_def
        split: pyobj.splits)
next
  assume "X \<noteq> Y" and "resp_attributes r1 = [X, Y]" and "resp_attributes r2 = [Y, X]"
  then show "\<not> Response_eq r1 r2"
    by (simp add: Response_eq_def)
next
  assume "Response_init ruid (PyList [PyAttribute X, PyAttribute Y]) = Inr r3"
    and "Response_init ruid (PyList [PyAttribute Y, PyAttribute X]) = Inr r4"
  then show "Response_uid r3 = Response_uid r4"
    by (auto simp: Response_init_def Response_uid_setter_def Response_attributes_setter_def
        Response_uid_def Let_def split: pyobj.splits)
next
  assume "X \<noteq> Y"
    and "Response_init ruid (PyList [PyAttribute X, PyAttribute Y]) = Inr r3"
    and "Response_init ruid (PyList [PyAttribute Y, PyAttribute X]) = Inr r4"
  then show "\<not> Response_eq r3 r4"
    by (auto simp: Response_init_def Response_uid_setter_def Response_attributes_setter_def
        Response_eq_def Let_def split: pyobj.splits)
qed

theorem C5_equality_order_witness:
  "Request_eq
     \<lparr>req_length = None, req_uid = Some (TextString ''x'' UNIQUE_IDENTIFIER),
      req_attribute_names = [TextString ''a'' ATTRIBUTE_NAME, TextString ''b'' ATTRIBUTE_NAME]\<rparr>
     \<lparr>req_length = None, req_uid = Some (TextString ''x'' UNIQUE_IDENTIFIER),
      req_attribute_names = [TextString ''b'' ATTRIBUTE_NAME, TextString ''a'' ATTRIBUTE_NAME]\<rparr>
   \<and> \<not> Response_eq
     \<lparr>resp_length = None, resp_uid = Some (TextString ''x'' UNIQUE_IDENTIFIER),
      resp_attributes = [Attribute [1], Attribute [2]]\<rparr>
     \<lparr>resp_length = None, resp_uid = Some (TextString ''x'' UNIQUE_IDENTIFIER),
      resp_attributes = [Attribute [2], Attribute [1]]\<rparr>"
proof -
  have i1: "Request_init (PyStr ''x'') (PyList [PyStr ''a'', PyStr ''b''])
     = Inr \<lparr>req_length = None, req_uid = Some (TextString ''x'' UNIQUE_IDENTIFIER),
        req_attribute_names = [TextString ''a'' ATTRIBUTE_NAME, TextString ''b'' ATTRIBUTE_NAME]\<rparr>"
    by (simp add: Request_init_def Request_uid_setter_def Request_attribute_names_setter_def)
  have i2: "Request_init (PyStr ''x'') (PyList [PyStr ''b'', PyStr ''a''])
     = Inr \<lparr>req_length = None, req_uid = Some (TextString ''x'' UNIQUE_IDENTIFIER),
        req_attribute_names = [TextString ''b'' ATTRIBUTE_NAME, TextString ''a'' ATTRIBUTE_NAME]\<rparr>"
    by (simp add: Request_init_def Request_uid_setter_def Request_attribute_names_setter_def)
  have r1: "Response_init (PyStr ''x'') (PyList [PyAttribute (Attribute [1]), PyAttribute (Attribute [2])])
     = Inr \<lparr>resp_length = None, resp_uid = Some (TextString ''x'' UNIQUE_IDENTIFIER),
        resp_attributes = [Attribute [1], Attribute [2]]\<rparr>"
    by (simp add: Response_init_def Response_uid_setter_def Response_attributes_setter_def)
  have r2: "Response_init (PyStr ''x'') (PyList [PyAttribute (Attribute [2]), PyAttribute (Attribute [1])])
     = Inr \<lparr>resp_length = None, resp_uid = Some (TextString ''x'' UNIQUE_IDENTIFIER),
        resp_attributes = [Attribute [2], Attribute [1]]\<rparr>"
    by (simp add: Response_init_def Response_uid_setter_def Response_attributes_setter_def)
  have ne: "Attribute [1] \<noteq> Attribute [2]"
    by simp
  show ?thesis
    using C5_equality_order [of _ _ "PyStr ''x''" _ _ "Attribute [1]" "Attribute [2]" _ _
        "PyStr ''x''", THEN conjunct2] i1 i2 r1 r2 ne
    by blast
qed

text \<open>
  C6: for both payloads, when the header reads and the fields read from the bounded stream
  leave bytes, \<^verbatim>\<open>read\<close> raises the malformed-encoding error "oversized"; when they leave
  none, it returns; and it returns only when the fields read and leave none.
\<close>

theorem C6_oversized:
  "(Base_read REQUEST_PAYLOAD STRUCTURE istream = Inr (n, rest) \<longrightarrow>
    Request_fields (take n rest) = Inr left \<longrightarrow>
      (left \<noteq> [] \<longrightarrow>
         (\<exists>s. Request_read self istream = Raised (InvalidKmipEncoding ''oversized'') s))
      \<and> (left = [] \<longrightarrow> (\<exists>s. Request_read self istream = Returned s)))
   \<and> (Request_read self istream = Returned self' \<longrightarrow>
      (\<exists>n rest. Base_read REQUEST_PAYLOAD STRUCTURE istream = Inr (n, rest)
         \<and> Request_fields (take n rest) = Inr []))
   \<and> (Base_read RESPONSE_PAYLOAD STRUCTURE istream = Inr (n, rest) \<longrightarrow>
    Response_fields (take n rest) = Inr left \<longrightarrow>
      (left \<noteq> [] \<longrightarrow>
         (\<exists>s. Response_read rself istream = Raised (InvalidKmipEncoding ''oversized'') s))
      \<and> (left = [] \<longrightarrow> (\<exists>s. Response_read rself istream = Returned s)))
   \<and> (Response_read rself istream = Returned rself' \<longrightarrow>
      (\<exists>n rest. Base_read RESPONSE_PAYLOAD STRUCTURE istream = Inr (n, rest)
         \<and> Response_fields (take n rest) = Inr []))"
proof (intro conjI)
  show "Base_read REQUEST_PAYLOAD STRUCTURE istream = Inr (n, rest) \<longrightarrow>
    Request_fields (take n rest) = Inr left \<longrightarrow>
      (left \<noteq> [] \<longrightarrow>
         (\<exists>s. Request_read self istream = Raised (InvalidKmipEncoding ''oversized'') s))
      \<and> (left = [] \<longrightarrow> (\<exists>s. Request_read self istream = Returned s))"
    by (auto simp: Request_read_def Request_fields_def is_oversized_def Let_def
        split: sum.splits prod.splits if_splits)
  show "Request_read self istream = Returned self' \<longrightarrow>
      (\<exists>n rest. Base_read REQUEST_PAYLOAD STRUCTURE istream = Inr (n, rest)
         \<and> Request_fields (take n rest) = Inr [])"
  proof
    assume returned: "Request_read self istream = Returned self'"
    then obtain n rest where hd: "Base_read REQUEST_PAYLOAD STRUCTURE istream = Inr (n, rest)"
      by (auto simp: Request_read_def split: sum.splits)
    have "Request_fields (take n rest) = Inr []"
      using returned
      by (cases "is_tag_next UNIQUE_IDENTIFIER (take n rest)")
         (auto simp: Request_read_def Request_fields_def hd is_oversized_def Let_def
           split: sum.splits prod.splits if_splits)
    with hd show "\<exists>n rest. Base_read REQUEST_PAYLOAD STRUCTURE istream = Inr (n, rest)
         \<and> Request_fields (take n rest) = Inr []"
      by blast
  qed
  show "Base_read RESPONSE_PAYLOAD STRUCTURE istream = Inr (n, rest) \<longrightarrow>
    Response_fields (take n rest) = Inr left \<longrightarrow>
      (left \<noteq> [] \<longrightarrow>
         (\<exists>s. Response_read rself istream = Raised (InvalidKmipEncoding ''oversized'') s))
      \<and> (left = [] \<longrightarrow> (\<exists>s. Response_read rself istream = Returned s))"
    by (auto simp: Response_read_def Response_fields_def is_oversized_def Let_def
        Response_uid_setter_def split: sum.splits prod.splits if_splits)
  show "Response_read rself istream = Returned rself' \<longrightarrow>
      (\<exists>n rest. Base_read RESPONSE_PAYLOAD STRUCTURE istream = Inr (n, rest)
         \<and> Response_fields (take n rest) = Inr [])"
  proof
    assume returned: "Response_read rself istream = Returned rself'"
    then obtain n rest where hd: "Base_read RESPONSE_PAYLOAD STRUCTURE istream = Inr (n, rest)"
      by (auto simp: Response_read_def split: sum.splits)
    have "Response_fields (take n rest) = Inr []"
      using returned
      by (cases "is_tag_next UNIQUE_IDENTIFIER (take n rest)")
         (auto simp: Response_read_def Response_fields_def hd is_oversized_def Let_def
           Response_uid_setter_def split: sum.splits prod.splits if_splits)
    with hd show "\<exists>n rest. Base_read RESPONSE_PAYLOAD STRUCTURE istream = Inr (n, rest)
         \<and> Response_fields (take n rest) = Inr []"
      by blast
  qed
qed

theorem C6_oversized_witness:
  "Base_read REQUEST_PAYLOAD STRUCTURE
     [0x42, 0x00, 0x79, 0x01, 0, 0, 0, 10, 0x42, 0x00, 0x94, 0x07, 0, 0, 0, 1, 0x78, 0]
     = Inr (10, [0x42, 0x00, 0x94, 0x07, 0, 0, 0, 1, 0x78, 0])
   \<and> Request_fields (take 10 [0x42, 0x00, 0x94, 0x07, 0, 0, 0, 1, 0x78, 0]) = Inr [0]
   \<and> (\<exists>s. Request_read \<lparr>req_length = None, req_uid = None, req_attribute_names = []\<rparr>
         [0x42, 0x00, 0x79, 0x01, 0, 0, 0, 10, 0x42, 0x00, 0x94, 0x07, 0, 0, 0, 1, 0x78, 0]
        = Raised (InvalidKmipEncoding ''oversized'') s)
   \<and> Base_read RESPONSE_PAYLOAD STRUCTURE
     [0x42, 0x00, 0x7C, 0x01, 0, 0, 0, 10, 0x42, 0x00, 0x94, 0x07, 0, 0, 0, 1, 0x78, 0]
     = Inr (10, [0x42, 0x00, 0x94, 0x07, 0, 0, 0, 1, 0x78, 0])
   \<and> Response_fields (take 10 [0x42, 0x00, 0x94, 0x07, 0, 0, 0, 1, 0x78, 0]) = Inr [0]
   \<and> (\<exists>s. Response_read \<lparr>resp_length = None, resp_uid = None, resp_attributes = []\<rparr>
         [0x42, 0x00, 0x7C, 0x01, 0, 0, 0, 10, 0x42, 0x00, 0x94, 0x07, 0, 0, 0, 1, 0x78, 0]
        = Raised (InvalidKmipEncoding ''oversized'') s)"
proof -
  have t: "take 10 [0x42, 0x00, 0x94, 0x07, 0, 0, 0, 1, 0x78, 0 :: byte]
           = [0x42, 0x00, 0x94, 0x07, 0, 0, 0, 1, 0x78, 0]"
    by simp
  note c6 = C6_oversized
    [where istream = "[0x42, 0x00, 0x79, 0x01, 0, 0, 0, 10,
                       0x42, 0x00, 0x94, 0x07, 0, 0, 0, 1, 0x78, 0]"
       and n = 10 and rest = "[0x42, 0x00, 0x94, 0x07, 0, 0, 0, 1, 0x78, 0]" and left = "[0]"
       and self = "\<lparr>req_length = None, req_uid = None, req_attribute_names = []\<rparr>",
      THEN conjunct1]
    C6_oversized
    [where istream = "[0x42, 0x00, 0x7C, 0x01, 0, 0, 0, 10,
                       0x42, 0x00, 0x94, 0x07, 0, 0, 0, 1, 0x78, 0]"
       and n = 10 and rest = "[0x42, 0x00, 0x94, 0x07, 0, 0, 0, 1, 0x78, 0]" and left = "[0]"
       and rself = "\<lparr>resp_length = None, resp_uid = None, resp_attributes = []\<rparr>",
      THEN conjunct2, THEN conjunct2, THEN conjunct1]
  show ?thesis
    using c6 ex_request_header ex_response_header ex_request_fields ex_response_fields
    unfolding t by simp
qed

text \<open>
  C7, as the spec states it, asks for the zero-based position of the first element that is
  not a string: position 1 for \<^verbatim>\<open>["a", 5]\<close>. The setter formats \<^verbatim>\<open>i + 1\<close>: it reports 2.
\<close>

theorem C7_position_counterexample:
  "Request_attribute_names_setter
     \<lparr>req_length = None, req_uid = None, req_attribute_names = []\<rparr>
     (PyList [PyStr ''a'', PyInt 5])
   = Raised (TypeError_item
               ''attribute_names must be a list of strings; item {0} has type {1}'' 2 T_int)
       \<lparr>req_length = None, req_uid = None, req_attribute_names = []\<rparr>"
  by (simp add: Request_attribute_names_setter_def)

text \<open>
  C7, amended: when a list given to the \<^verbatim>\<open>attribute_names\<close> setter holds an element that is
  not a string, the setter raises a \<^verbatim>\<open>TypeError\<close> that reports the one-based position of the
  first such element (its index plus one) and its type, and the instance is unchanged; the
  \<^verbatim>\<open>attributes\<close> setter of the response payload does the same for the first element that is
  not an attribute.
\<close>

theorem C7_position_one_based:
  "(type_of x \<noteq> T_str \<longrightarrow>
      Request_attribute_names_setter self (PyList (map PyStr pre @ x # post))
        = Raised (TypeError_item
                    ''attribute_names must be a list of strings; item {0} has type {1}''
                    (length pre + 1) (type_of x)) self)
   \<and> (type_of y \<noteq> T_Attribute \<longrightarrow>
      Response_attributes_setter self' (PyList (map PyAttribute pre' @ y # post'))
        = Raised (TypeError_item
                    ''attributes must be a list of attribute objects; item {0} has type {1}''
                    (length pre' + 1) (type_of y)) self')"
  using names_loop_first_bad [of x 0 pre post "[]"] attributes_loop_first_bad [of y 0 pre' post']
  by (simp add: Request_attribute_names_setter_def Response_attributes_setter_def)

theorem C7_position_one_based_witness:
  "type_of (PyInt 5) \<noteq> T_str
   \<and> Request_attribute_names_setter
        \<lparr>req_length = None, req_uid = None, req_attribute_names = []\<rparr>
        (PyList [PyStr ''a'', PyInt 5])
      = Raised (TypeError_item
                  ''attribute_names must be a list of strings; item {0} has type {1}'' 2 T_int)
          \<lparr>req_length = None, req_uid = None, req_attribute_names = []\<rparr>
   \<and> type_of (PyStr ''x'') \<noteq> T_Attribute
   \<and> Response_attributes_setter
        \<lparr>resp_length = None, resp_uid = None, resp_attributes = []\<rparr>
        (PyList [PyAttribute (Attribute []), PyStr ''x''])
      = Raised (TypeError_item
                  ''attributes must be a list of attribute objects; item {0} has type {1}''
                  2 T_str)
          \<lparr>resp_length = None, resp_uid = None, resp_attributes = []\<rparr>"
  using C7_position_one_based [of "PyInt 5"
      "\<lparr>req_length = None, req_uid = None, req_attribute_names = []\<rparr>" "[''a'']" "[]"
      "PyStr ''x''" "\<lparr>resp_length = None, resp_uid = None, resp_attributes = []\<rparr>"
      "[Attribute []]" "[]"]
  by simp


text \<open>
  C8, as the spec states it, makes every failing decode atomic. \<^verbatim>\<open>read\<close> assigns the fields as
  it reads them and checks the bounded stream last: a body with one byte after the identifier
  \<^verbatim>\<open>"x"\<close> raises "oversized" and leaves the identifier \<^verbatim>\<open>"x"\<close> in a request payload that had
  none, and in a response payload that held \<^verbatim>\<open>"y"\<close> and one attribute, now without attributes.
\<close>

theorem C8_decode_counterexample:
  "Request_read \<lparr>req_length = None, req_uid = None, req_attribute_names = []\<rparr>
     [0x42, 0x00, 0x79, 0x01, 0, 0, 0, 10, 0x42, 0x00, 0x94, 0x07, 0, 0, 0, 1, 0x78, 0]
   = Raised (InvalidKmipEncoding ''oversized'')
       \<lparr>req_length = Some 10, req_uid = Some (TextString ''x'' UNIQUE_IDENTIFIER),
        req_attribute_names = []\<rparr>
   \<and> Request_uid \<lparr>req_length = Some 10, req_uid = Some (TextString ''x'' UNIQUE_IDENTIFIER),
        req_attribute_names = []\<rparr>
     \<noteq> Request_uid \<lparr>req_length = None, req_uid = None, req_attribute_names = []\<rparr>
   \<and> Response_read
        \<lparr>resp_length = None, resp_uid = Some (TextString ''y'' UNIQUE_IDENTIFIER),
         resp_attributes = [Attribute [1]]\<rparr>
        [0x42, 0x00, 0x7C, 0x01, 0, 0, 0, 10, 0x42, 0x00, 0x94, 0x07, 0, 0, 0, 1, 0x78, 0]
      = Raised (InvalidKmipEncoding ''oversized'')
          \<lparr>resp_length = Some 10, resp_uid = Some (TextString ''x'' UNIQUE_IDENTIFIER),
           resp_attributes = []\<rparr>"
  by (simp add: ex_request_trailing ex_response_trailing Request_uid_def)

text \<open>
  C8, amended: a constructor that raises gives no instance; a setter that raises leaves the
  instance unchanged; a \<^verbatim>\<open>write\<close> that raises leaves the identifier and the names
  (attributes) unchanged; a \<^verbatim>\<open>read\<close> that raises at the header of the payload leaves the
  instance unchanged, and the \<^verbatim>\<open>read\<close> of a response payload that raises because the
  identifier is missing leaves its identifier and attributes unchanged.
\<close>

theorem C8_failures_leave_fields:
  "(Request_init uid names = Inl e \<longrightarrow> (\<forall>p. Request_init uid names \<noteq> Inr p))
   \<and> (Response_init uid names = Inl e \<longrightarrow> (\<forall>p. Response_init uid names \<noteq> Inr p))
   \<and> (Request_uid_setter self v = Raised e s \<longrightarrow> s = self)
   \<and> (Request_attribute_names_setter self v = Raised e s \<longrightarrow> s = self)
   \<and> (Response_uid_setter rself v = Raised e rs \<longrightarrow> rs = rself)
   \<and> (Response_attributes_setter rself v = Raised e rs \<longrightarrow> rs = rself)
   \<and> (Request_write self ostream = Raised e (s, ostream') \<longrightarrow>
        req_uid s = req_uid self \<and> req_attribute_names s = req_attribute_names self)
   \<and> (Response_write rself ostream = Raised e (rs, ostream') \<longrightarrow>
        resp_uid rs = resp_uid rself \<and> resp_attributes rs = resp_attributes rself)
   \<and> (Base_read REQUEST_PAYLOAD STRUCTURE istream = Inl e \<longrightarrow>
        Request_read self istream = Raised e self)
   \<and> (Base_read RESPONSE_PAYLOAD STRUCTURE istream = Inl e \<longrightarrow>
        Response_read rself istream = Raised e rself)
   \<and> (Base_read RESPONSE_PAYLOAD STRUCTURE istream = Inr (n, rest) \<longrightarrow>
      \<not> is_tag_next UNIQUE_IDENTIFIER (take n rest) \<longrightarrow>
        (\<exists>rs'. Response_read rself istream
                 = Raised (InvalidKmipEncoding
                             ''expected GetAttributes response uid not found'') rs'
           \<and> resp_uid rs' = resp_uid rself \<and> resp_attributes rs' = resp_attributes rself))"
proof (intro conjI)
  show "Request_init uid names = Inl e \<longrightarrow> (\<forall>p. Request_init uid names \<noteq> Inr p)"
    by simp
  show "Response_init uid names = Inl e \<longrightarrow> (\<forall>p. Response_init uid names \<noteq> Inr p)"
    by simp
  show "Request_uid_setter self v = Raised e s \<longrightarrow> s = self"
    by (auto simp: Request_uid_setter_def split: pyobj.splits)
  show "Request_attribute_names_setter self v = Raised e s \<longrightarrow> s = self"
    by (auto simp: Request_attribute_names_setter_def split: pyobj.splits sum.splits)
  show "Response_uid_setter rself v = Raised e rs \<longrightarrow> rs = rself"
    by (auto simp: Response_uid_setter_def split: pyobj.splits)
  show "Response_attributes_setter rself v = Raised e rs \<longrightarrow> rs = rself"
    by (auto simp: Response_attributes_setter_def split: pyobj.splits sum.splits)
  show "Request_write self ostream = Raised e (s, ostream') \<longrightarrow>
        req_uid s = req_uid self \<and> req_attribute_names s = req_attribute_names self"
    by (auto simp: Request_write_def Let_def split: option.splits outcome.splits)
  show "Response_write rself ostream = Raised e (rs, ostream') \<longrightarrow>
        resp_uid rs = resp_uid rself \<and> resp_attributes rs = resp_attributes rself"
    by (auto simp: Response_write_def Let_def split: option.splits outcome.splits)
  show "Base_read REQUEST_PAYLOAD STRUCTURE istream = Inl e \<longrightarrow>
        Request_read self istream = Raised e self"
    by (simp add: Request_read_def)
  show "Base_read RESPONSE_PAYLOAD STRUCTURE istream = Inl e \<longrightarrow>
        Response_read rself istream = Raised e rself"
    by (simp add: Response_read_def)
  show "Base_read RESPONSE_PAYLOAD STRUCTURE istream = Inr (n, rest) \<longrightarrow>
      \<not> is_tag_next UNIQUE_IDENTIFIER (take n rest) \<longrightarrow>
        (\<exists>rs'. Response_read rself istream
                 = Raised (InvalidKmipEncoding
                             ''expected GetAttributes response uid not found'') rs'
           \<and> resp_uid rs' = resp_uid rself \<and> resp_attributes rs' = resp_attributes rself)"
    by (simp add: Response_read_def Let_def)
qed

theorem C8_failures_leave_fields_witness:
  "Base_read REQUEST_PAYLOAD STRUCTURE [] = Inl (InvalidKmipEncoding ''tag'')
   \<and> Request_read
        \<lparr>req_length = None, req_uid = Some (TextString ''y'' UNIQUE_IDENTIFIER),
         req_attribute_names = [TextString ''a'' ATTRIBUTE_NAME]\<rparr> []
      = Raised (InvalidKmipEncoding ''tag'')
          \<lparr>req_length = None, req_uid = Some (TextString ''y'' UNIQUE_IDENTIFIER),
           req_attribute_names = [TextString ''a'' ATTRIBUTE_NAME]\<rparr>
   \<and> \<not> is_tag_next UNIQUE_IDENTIFIER [0x42, 0x00, 0x08, 0x01, 0, 0, 0, 2, 1, 2]
   \<and> (\<exists>rs'. Response_read
               \<lparr>resp_length = None, resp_uid = Some (TextString ''y'' UNIQUE_IDENTIFIER),
                resp_attributes = [Attribute [1]]\<rparr>
               [0x42, 0x00, 0x7C, 0x01, 0, 0, 0, 10, 0x42, 0x00, 0x08, 0x01, 0, 0, 0, 2, 1, 2]
             = Raised (InvalidKmipEncoding
                         ''expected GetAttributes response uid not found'') rs'
         \<and> resp_uid rs' = Some (TextString ''y'' UNIQUE_IDENTIFIER)
         \<and> resp_attributes rs' = [Attribute [1]])"
proof -
  have hd: "Base_read REQUEST_PAYLOAD STRUCTURE [] = Inl (InvalidKmipEncoding ''tag'')"
    by (simp add: Base_read_def)
  have nx: "\<not> is_tag_next UNIQUE_IDENTIFIER [0x42, 0x00, 0x08, 0x01, 0, 0, 0, 2, 1, 2]"
    by (simp add: is_tag_next_def be_nat_def)
  have t: "take 10 [0x42, 0x00, 0x08, 0x01, 0, 0, 0, 2, 1, 2 :: byte]
           = [0x42, 0x00, 0x08, 0x01, 0, 0, 0, 2, 1, 2]"
    by simp
  note request = C8_failures_leave_fields
    [where istream = "[]" and e = "InvalidKmipEncoding ''tag''"
       and self = "\<lparr>req_length = None, req_uid = Some (TextString ''y'' UNIQUE_IDENTIFIER),
                    req_attribute_names = [TextString ''a'' ATTRIBUTE_NAME]\<rparr>",
      THEN conjunct2, THEN conjunct2, THEN conjunct2, THEN conjunct2, THEN conjunct2,
      THEN conjunct2, THEN conjunct2, THEN conjunct2, THEN conjunct1]
  note response = C8_failures_leave_fields
    [where istream = "[0x42, 0x00, 0x7C, 0x01, 0, 0, 0, 10,
                       0x42, 0x00, 0x08, 0x01, 0, 0, 0, 2, 1, 2]"
       and n = 10 and rest = "[0x42, 0x00, 0x08, 0x01, 0, 0, 0, 2, 1, 2]"
       and rself = "\<lparr>resp_length = None,
                     resp_uid = Some (TextString ''y'' UNIQUE_IDENTIFIER),
                     resp_attributes = [Attribute [1]]\<rparr>",
      THEN conjunct2, THEN conjunct2, THEN conjunct2, THEN conjunct2, THEN conjunct2,
      THEN conjunct2, THEN conjunct2, THEN conjunct2, THEN conjunct2, THEN conjunct2]
  show ?thesis
    using request response hd nx ex_response_no_uid
    unfolding t by simp
qed

text \<open>
  C9: \<^verbatim>\<open>read\<close> of a request payload does not remove duplicates. For every identifier, absent or
  not, and every list of names, with or without duplicates, whose fields make a body shorter
  than \<open>2 ^ 32\<close> bytes, \<^verbatim>\<open>read\<close> of the structure with that body returns, and the names of the
  instance are that list, in the order of the wire.
\<close>

theorem C9_read_keeps_duplicates:
  "body = (case uid of Some s \<Rightarrow> TextString_bytes (TextString s UNIQUE_IDENTIFIER) | None \<Rightarrow> [])
          @ concat (map (\<lambda>s. TextString_bytes (TextString s ATTRIBUTE_NAME)) names) \<longrightarrow>
   length body < 2 ^ 32 \<longrightarrow>
     (\<exists>self'. Request_read self (frame REQUEST_PAYLOAD body) = Returned self'
        \<and> Request_attribute_names self' = names \<and> Request_uid self' = uid)"
proof (intro impI)
  let ?p = "\<lparr>req_length = None,
             req_uid = map_option (\<lambda>s. TextString s UNIQUE_IDENTIFIER) uid,
             req_attribute_names = map (\<lambda>s. TextString s ATTRIBUTE_NAME) names\<rparr>"
  assume body: "body = (case uid of Some s \<Rightarrow> TextString_bytes (TextString s UNIQUE_IDENTIFIER)
                        | None \<Rightarrow> [])
          @ concat (map (\<lambda>s. TextString_bytes (TextString s ATTRIBUTE_NAME)) names)"
    and len: "length body < 2 ^ 32"
  have b: "Request_body ?p = body"
    by (cases uid) (simp_all add: Request_body_def body comp_def)
  have tags: "Request_tags ?p"
    by (cases uid) (simp_all add: Request_tags_def list_all_iff)
  have "Request_read self (frame REQUEST_PAYLOAD (Request_body ?p))
        = Returned \<lparr>req_length = Some (length (Request_body ?p)), req_uid = req_uid ?p,
                    req_attribute_names = req_attribute_names ?p\<rparr>"
    by (rule Request_read_frame [OF tags]) (simp only: b len)
  then have rd: "Request_read self (frame REQUEST_PAYLOAD body)
        = Returned \<lparr>req_length = Some (length body),
                    req_uid = map_option (\<lambda>s. TextString s UNIQUE_IDENTIFIER) uid,
                    req_attribute_names = map (\<lambda>s. TextString s ATTRIBUTE_NAME) names\<rparr>"
    by (simp add: b)
  show "\<exists>self'. Request_read self (frame REQUEST_PAYLOAD body) = Returned self'
        \<and> Request_attribute_names self' = names \<and> Request_uid self' = uid"
    unfolding rd
    by (cases uid) (simp_all add: Request_attribute_names_map Request_uid_def comp_def)
qed

theorem C9_read_keeps_duplicates_witness:
  "(\<exists>self'. Request_read \<lparr>req_length = None, req_uid = None, req_attribute_names = []\<rparr>
               [0x42, 0x00, 0x79, 0x01, 0, 0, 0, 18,
                0x42, 0x00, 0x0A, 0x07, 0, 0, 0, 1, 0x61,
                0x42, 0x00, 0x0A, 0x07, 0, 0, 0, 1, 0x61] = Returned self'
       \<and> Request_attribute_names self' = [''a'', ''a''] \<and> Request_uid self' = None)
   \<and> (\<exists>self'. Request_init PyNone (PyList [PyStr ''a'', PyStr ''a'']) = Inr self'
       \<and> Request_attribute_names self' = [''a''])"
proof -
  let ?body = "concat (map (\<lambda>s. TextString_bytes (TextString s ATTRIBUTE_NAME)) [''a'', ''a''])"
  have len: "length ?body < 2 ^ 32"
    by (simp add: length_TextString_bytes)
  have bytes: "frame REQUEST_PAYLOAD ?body
               = [0x42, 0x00, 0x79, 0x01, 0, 0, 0, 18,
                  0x42, 0x00, 0x0A, 0x07, 0, 0, 0, 1, 0x61,
                  0x42, 0x00, 0x0A, 0x07, 0, 0, 0, 1, 0x61]"
    by (simp add: frame_def TextString_bytes_def header_def be_bytes_3 be_bytes_4)
  have init: "\<exists>self'. Request_init PyNone (PyList [PyStr ''a'', PyStr ''a'']) = Inr self'
       \<and> Request_attribute_names self' = [''a'']"
    by (simp add: Request_init_def Request_uid_setter_def Request_attribute_names_setter_def
        Request_attribute_names_map)
  show ?thesis
    using C9_read_keeps_duplicates [of ?body None "[''a'', ''a'']"
        "\<lparr>req_length = None, req_uid = None, req_attribute_names = []\<rparr>"] len init
    unfolding bytes by simp
qed

text \<open>
  C10: two instances of the request payload (of the response payload) that both return from
  \<^verbatim>\<open>read\<close> of the same bytes are then the same: same length, same identifier, same names
  (attributes), whatever they held before.
\<close>

theorem C10_read_overwrites:
  "(Request_read p istream = Returned p' \<longrightarrow> Request_read q istream = Returned q' \<longrightarrow>
      p' = q' \<and> Request_uid p' = Request_uid q'
      \<and> Request_attribute_names p' = Request_attribute_names q')
   \<and> (Response_read r istream = Returned r' \<longrightarrow> Response_read s istream = Returned s' \<longrightarrow>
      r' = s' \<and> Response_uid r' = Response_uid s'
      \<and> Response_attributes r' = Response_attributes s')"
  using Request_read_indep [of p istream p' q] Response_read_indep [of r istream r' s]
  by auto

theorem C10_read_overwrites_witness:
  "Request_read
     \<lparr>req_length = None, req_uid = Some (TextString ''y'' UNIQUE_IDENTIFIER),
      req_attribute_names = [TextString ''c'' ATTRIBUTE_NAME]\<rparr>
     [0x42, 0x00, 0x79, 0x01, 0, 0, 0, 27,
      0x42, 0x00, 0x94, 0x07, 0, 0, 0, 1, 0x78,
      0x42, 0x00, 0x0A, 0x07, 0, 0, 0, 1, 0x61,
      0x42, 0x00, 0x0A, 0x07, 0, 0, 0, 1, 0x62]
   = Returned \<lparr>req_length = Some 27, req_uid = Some (TextString ''x'' UNIQUE_IDENTIFIER),
               req_attribute_names = [TextString ''a'' ATTRIBUTE_NAME,
                                      TextString ''b'' ATTRIBUTE_NAME]\<rparr>
   \<and> Request_read \<lparr>req_length = Some 3, req_uid = None, req_attribute_names = []\<rparr>
     [0x42, 0x00, 0x79, 0x01, 0, 0, 0, 27,
      0x42, 0x00, 0x94, 0x07, 0, 0, 0, 1, 0x78,
      0x42, 0x00, 0x0A, 0x07, 0, 0, 0, 1, 0x61,
      0x42, 0x00, 0x0A, 0x07, 0, 0, 0, 1, 0x62]
   = Returned \<lparr>req_length = Some 27, req_uid = Some (TextString ''x'' UNIQUE_IDENTIFIER),
               req_attribute_names = [TextString ''a'' ATTRIBUTE_NAME,
                                      TextString ''b'' ATTRIBUTE_NAME]\<rparr>
   \<and> Response_read
     \<lparr>resp_length = None, resp_uid = Some (TextString ''y'' UNIQUE_IDENTIFIER),
      resp_attributes = [Attribute [7]]\<rparr>
     [0x42, 0x00, 0x7C, 0x01, 0, 0, 0, 27,
      0x42, 0x00, 0x94, 0x07, 0, 0, 0, 1, 0x78,
      0x42, 0x00, 0x08, 0x01, 0, 0, 0, 2, 1, 2,
      0x42, 0x00, 0x08, 0x01, 0, 0, 0, 0]
   = Returned \<lparr>resp_length = Some 27, resp_uid = Some (TextString ''x'' UNIQUE_IDENTIFIER),
               resp_attributes = [Attribute [1, 2], Attribute []]\<rparr>
   \<and> Response_read \<lparr>resp_length = Some 3, resp_uid = None, resp_attributes = []\<rparr>
     [0x42, 0x00, 0x7C, 0x01, 0, 0, 0, 27,
      0x42, 0x00, 0x94, 0x07, 0, 0, 0, 1, 0x78,
      0x42, 0x00, 0x08, 0x01, 0, 0, 0, 2, 1, 2,
      0x42, 0x00, 0x08, 0x01, 0, 0, 0, 0]
   = Returned \<lparr>resp_length = Some 27, resp_uid = Some (TextString ''x'' UNIQUE_IDENTIFIER),
               resp_attributes = [Attribute [1, 2], Attribute []]\<rparr>"
proof -
  let ?p = "\<lparr>req_length = None, req_uid = Some (TextString ''y'' UNIQUE_IDENTIFIER),
             req_attribute_names = [TextString ''c'' ATTRIBUTE_NAME]\<rparr>"
  let ?q = "\<lparr>req_length = Some 3, req_uid = None, req_attribute_names = []\<rparr>"
  let ?r = "\<lparr>resp_length = None, resp_uid = Some (TextString ''y'' UNIQUE_IDENTIFIER),
             resp_attributes = [Attribute [7]]\<rparr>"
  let ?s = "\<lparr>resp_length = Some 3, resp_uid = None, resp_attributes = []\<rparr>"
  let ?bs = "[0x42, 0x00, 0x79, 0x01, 0, 0, 0, 27,
      0x42, 0x00, 0x94, 0x07, 0, 0, 0, 1, 0x78,
      0x42, 0x00, 0x0A, 0x07, 0, 0, 0, 1, 0x61,
      0x42, 0x00, 0x0A, 0x07, 0, 0, 0, 1, 0x62] :: byte list"
  let ?rbs = "[0x42, 0x00, 0x7C, 0x01, 0, 0, 0, 27,
      0x42, 0x00, 0x94, 0x07, 0, 0, 0, 1, 0x78,
      0x42, 0x00, 0x08, 0x01, 0, 0, 0, 2, 1, 2,
      0x42, 0x00, 0x08, 0x01, 0, 0, 0, 0] :: byte list"
  obtain p' q' r' s' where reads: "Request_read ?p ?bs = Returned p'"
    "Request_read ?q ?bs = Returned q'" "Response_read ?r ?rbs = Returned r'"
    "Response_read ?s ?rbs = Returned s'"
    by (simp add: ex_request_read ex_response_read)
  have "p' = q'"
    using C10_read_overwrites [where p = ?p and q = ?q and istream = ?bs and p' = p'
        and q' = q', THEN conjunct1] reads
    by simp
  moreover have "r' = s'"
    using C10_read_overwrites [where r = ?r and s = ?s and istream = ?rbs and r' = r'
        and s' = s', THEN conjunct2] reads
    by simp
  ultimately show ?thesis
    using reads by (simp add: ex_request_read ex_response_read)
qed

end
